theory Spec2Isabelle
  imports Main
begin

section \<open>Python values\<close>

text \<open>
  A Python \<open>str\<close> is a sequence of Unicode code points: \<open>len\<close> and slicing count code
  points, and the ellipsis appended by \<open>new_post\<close> is the single code point U+2026. A
  string is therefore a list of code points; \<open>py\<close> embeds an ASCII literal.
\<close>

type_synonym pystr = "nat list"

definition py :: "string \<Rightarrow> pystr" where
  "py s = map of_char s"

text \<open>The code points for which \<open>str.isspace\<close> holds; they are what \<open>str.strip()\<close> removes.\<close>

definition is_space :: "nat \<Rightarrow> bool" where
  "is_space c \<longleftrightarrow>
     (9 \<le> c \<and> c \<le> 13) \<or> (28 \<le> c \<and> c \<le> 32) \<or> c = 133 \<or> c = 160 \<or> c = 5760 \<or>
     (8192 \<le> c \<and> c \<le> 8202) \<or> c = 8232 \<or> c = 8233 \<or> c = 8239 \<or> c = 8287 \<or> c = 12288"

definition lstrip :: "pystr \<Rightarrow> pystr" where
  "lstrip s = dropWhile is_space s"

definition rstrip :: "pystr \<Rightarrow> pystr" where
  "rstrip s = rev (dropWhile is_space (rev s))"

definition strip :: "pystr \<Rightarrow> pystr" where
  "strip s = rstrip (lstrip s)"

text \<open>\<open>x or y\<close> on integers, strings and optional strings: \<open>0\<close>, \<open>""\<close> and \<open>None\<close> are falsy.\<close>

definition or_int :: "int \<Rightarrow> int \<Rightarrow> int" where
  "or_int x y = (if x = 0 then y else x)"

definition or_str :: "pystr \<Rightarrow> pystr \<Rightarrow> pystr" where
  "or_str x y = (if x = [] then y else x)"

definition or_opt :: "pystr option \<Rightarrow> pystr \<Rightarrow> pystr" where
  "or_opt x y = (case x of None \<Rightarrow> y | Some v \<Rightarrow> or_str v y)"

section \<open>Tables\<close>

text \<open>
  A table is the list of its rows in insertion order, each with its integer primary key.
  \<open>Model.query.get\<close> is a lookup by key, \<open>filter_by(...).first()\<close> returns the first row
  that matches, an insert takes the key after the largest one in use, and a delete or an
  update addresses the row by its key.
\<close>

type_synonym 'a table = "(nat \<times> 'a) list"

definition get_row :: "'a table \<Rightarrow> nat \<Rightarrow> 'a option" where
  "get_row t k = map_of t k"

definition first_row :: "('a \<Rightarrow> bool) \<Rightarrow> 'a table \<Rightarrow> (nat \<times> 'a) option" where
  "first_row P t = find (\<lambda>kr. P (snd kr)) t"

definition next_id :: "'a table \<Rightarrow> nat" where
  "next_id t = Suc (fold max (map fst t) 0)"

definition insert_row :: "'a \<Rightarrow> 'a table \<Rightarrow> 'a table" where
  "insert_row r t = t @ [(next_id t, r)]"

definition delete_row :: "nat \<Rightarrow> 'a table \<Rightarrow> 'a table" where
  "delete_row k t = filter (\<lambda>kr. fst kr \<noteq> k) t"

definition update_row :: "nat \<Rightarrow> 'a \<Rightarrow> 'a table \<Rightarrow> 'a table" where
  "update_row k r t = map (\<lambda>kr. if fst kr = k then (k, r) else kr) t"

section \<open>Data model (models.py)\<close>

text \<open>
  The columns of \<open>User\<close>, \<open>Post\<close>, \<open>Comment\<close> and \<open>Like\<close>. A column that can hold
  \<open>None\<close> in a Python object is an \<open>option\<close>; what the schema admits (unique, not
  nullable) is checked where a row is committed. The \<open>user_id\<close>, \<open>post_id\<close> and
  \<open>content\<close> columns carry the name of their table as a prefix, since record fields share
  one name space. The \<open>date\<close> columns (defaulting to the wall clock) are left out; no
  operation below reads them.
\<close>

record user =
  username :: pystr
  email :: pystr
  password_hash :: "pystr option"
  track :: "pystr option"
  skills :: "pystr option"
  available_for_project :: bool
  github_link :: "pystr option"
  portfolio_link :: "pystr option"
  linkedin_link :: "pystr option"
  phone_number :: "pystr option"
  cv_file :: "pystr option"
  profile_image :: pystr

record post =
  title :: pystr
  post_content :: "pystr option"
  image_file :: "pystr option"
  video_file :: "pystr option"
  post_user_id :: nat
  likes_count :: int

record comment =
  comment_content :: pystr
  comment_user_id :: nat
  comment_post_id :: nat

record like =
  like_user_id :: nat
  like_post_id :: nat

record database =
  users :: "user table"
  posts :: "post table"
  comments :: "comment table"
  likes :: "like table"

section \<open>Requests and responses\<close>

text \<open>
  The session holds the id of the logged-in user, if any. A route returns the database
  and the session after the request, the messages it flashed (text and category) and its
  response: a redirect, a rendered template, an \<open>abort\<close> with a status code, or an
  exception that no handler caught.
\<close>

type_synonym session = "nat option"

datatype exn = IntegrityError | AttributeError | InvalidRequestError

datatype target = Endpoint string | PostDetail nat | Url pystr

datatype response = Redirect target | Render string | Abort nat | Raised exn

type_synonym flash = "pystr \<times> string"

record outcome =
  db_after :: database
  session_after :: session
  flashes :: "flash list"
  response :: response

definition load_user :: "database \<Rightarrow> nat \<Rightarrow> user option" where
  "load_user db uid = get_row (users db) uid"

text \<open>\<open>current_user\<close>: the session's user when that row still exists, else anonymous.\<close>

definition current_user :: "database \<Rightarrow> session \<Rightarrow> nat option" where
  "current_user db sess =
     (case sess of
        None \<Rightarrow> None
      | Some uid \<Rightarrow> (case load_user db uid of None \<Rightarrow> None | Some u \<Rightarrow> Some uid))"

text \<open>What \<open>@login_required\<close> answers to an anonymous request.\<close>

definition unauthorized :: "database \<Rightarrow> session \<Rightarrow> outcome" where
  "unauthorized db sess =
     \<lparr>db_after = db, session_after = sess,
      flashes = [(py ''Please log in to access CS Community.'', ''info'')],
      response = Redirect (Endpoint ''login'')\<rparr>"

section \<open>The like route (app.py, toggle\_like)\<close>

definition first_like :: "database \<Rightarrow> nat \<Rightarrow> nat \<Rightarrow> (nat \<times> like) option" where
  "first_like db uid pid =
     first_row (\<lambda>l. like_user_id l = uid \<and> like_post_id l = pid) (likes db)"

text \<open>The constraint \<open>uix_user_post\<close>: an insert of a pair already present is rejected.\<close>

definition uix_user_post_violated :: "like table \<Rightarrow> nat \<Rightarrow> nat \<Rightarrow> bool" where
  "uix_user_post_violated t uid pid \<longleftrightarrow>
     (uid, pid) \<in> set (map (\<lambda>kr. (like_user_id (snd kr), like_post_id (snd kr))) t)"

definition toggle_like :: "database \<Rightarrow> session \<Rightarrow> nat \<Rightarrow> outcome" where
  "toggle_like db sess post_id =
     (case current_user db sess of
        None \<Rightarrow> unauthorized db sess
      | Some uid \<Rightarrow>
          (case get_row (posts db) post_id of
             None \<Rightarrow> \<lparr>db_after = db, session_after = sess, flashes = [], response = Abort 404\<rparr>
           | Some p \<Rightarrow>
               (case first_like db uid post_id of
                  Some existing \<Rightarrow>
                    \<lparr>db_after = db
                       \<lparr>likes := delete_row (fst existing) (likes db),
                        posts := update_row post_id
                          (p\<lparr>likes_count := max (or_int (likes_count p) 1 - 1) 0\<rparr>) (posts db)\<rparr>,
                     session_after = sess,
                     flashes = [(py ''Like removed.'', ''info'')],
                     response = Redirect (PostDetail post_id)\<rparr>
                | None \<Rightarrow>
                    (if uix_user_post_violated (likes db) uid post_id
                     then \<lparr>db_after = db, session_after = sess,
                           flashes = [(py ''Post liked!'', ''success''),
                                      (py ''Database error. Please try again.'', ''danger'')],
                           response = Redirect (PostDetail post_id)\<rparr>
                     else \<lparr>db_after = db
                            \<lparr>likes := insert_row
                               \<lparr>like_user_id = uid, like_post_id = post_id\<rparr> (likes db),
                             posts := update_row post_id
                               (p\<lparr>likes_count := or_int (likes_count p) 0 + 1\<rparr>) (posts db)\<rparr>,
                           session_after = sess,
                           flashes = [(py ''Post liked!'', ''success'')],
                           response = Redirect (PostDetail post_id)\<rparr>))))"

text \<open>
  What the page the route redirects to shows (\<open>post_detail\<close>): whether the viewer has a
  like on the post, and the post's counter.
\<close>

definition liked :: "database \<Rightarrow> nat \<Rightarrow> nat \<Rightarrow> bool" where
  "liked db uid pid \<longleftrightarrow> first_like db uid pid \<noteq> None"

definition like_count :: "database \<Rightarrow> nat \<Rightarrow> int option" where
  "like_count db pid = map_option likes_count (get_row (posts db) pid)"

text \<open>The rows of \<open>Like\<close> that belong to a post.\<close>

definition like_set :: "database \<Rightarrow> nat \<Rightarrow> like table" where
  "like_set db pid = filter (\<lambda>kr. like_post_id (snd kr) = pid) (likes db)"

text \<open>A sequence of like requests, each by a logged-in member on a post.\<close>

fun toggles :: "database \<Rightarrow> (nat \<times> nat) list \<Rightarrow> database" where
  "toggles db [] = db"
| "toggles db (r # rs) = toggles (db_after (toggle_like db (Some (fst r)) (snd r))) rs"

text \<open>
  Well-formed tables: primary keys are unique, and \<open>Like\<close> satisfies its uniqueness
  constraint on the pair (user, post). The storage layer keeps both.
\<close>

definition keys_distinct :: "'a table \<Rightarrow> bool" where
  "keys_distinct t \<longleftrightarrow> distinct (map fst t)"

definition uix_user_post :: "like table \<Rightarrow> bool" where
  "uix_user_post t \<longleftrightarrow>
     distinct (map (\<lambda>kr. (like_user_id (snd kr), like_post_id (snd kr))) t)"

section \<open>Forms (forms.py)\<close>

text \<open>
  A text field arrives as an optional raw string (\<open>None\<close> when the request does not
  carry it). Its \<open>data\<close> is the raw value after \<open>strip_filter\<close>. The validators of
  wtforms that the forms use are \<open>DataRequired\<close>, \<open>Length\<close> and \<open>Optional\<close>; the checks
  made outside this repository (the request is a POST, the CSRF token, the syntax of an
  e-mail address, the extension of an upload) are the field \<open>submitted\<close> of each form.
  A file field holds the name under which the upload was stored, if there was one.
\<close>

definition strip_filter :: "pystr option \<Rightarrow> pystr option" where
  "strip_filter x = (case x of None \<Rightarrow> None | Some s \<Rightarrow> if s = [] then None else Some (strip s))"

definition DataRequired :: "pystr option \<Rightarrow> bool" where
  "DataRequired d \<longleftrightarrow> (case d of None \<Rightarrow> False | Some s \<Rightarrow> s \<noteq> [] \<and> strip s \<noteq> [])"

definition data_len :: "pystr option \<Rightarrow> nat" where
  "data_len d = (case d of None \<Rightarrow> 0 | Some s \<Rightarrow> length s)"

definition Optional_blank :: "pystr option \<Rightarrow> bool" where
  "Optional_blank raw \<longleftrightarrow> (case raw of None \<Rightarrow> True | Some s \<Rightarrow> strip s = [])"

text \<open>The value of a field that \<open>DataRequired\<close> has accepted.\<close>

definition data_str :: "pystr option \<Rightarrow> pystr" where
  "data_str d = (case d of None \<Rightarrow> [] | Some s \<Rightarrow> s)"

record PostForm =
  pf_submitted :: bool
  pf_title :: "pystr option"
  pf_content :: "pystr option"
  pf_image :: "pystr option"
  pf_video :: "pystr option"

definition PostForm_validate :: "PostForm \<Rightarrow> bool" where
  "PostForm_validate f \<longleftrightarrow>
     pf_submitted f \<and>
     (Optional_blank (pf_title f) \<or> data_len (strip_filter (pf_title f)) \<le> 200) \<and>
     DataRequired (strip_filter (pf_content f)) \<and>
     1 \<le> data_len (strip_filter (pf_content f))"

record CommentForm =
  cf_submitted :: bool
  cf_content :: "pystr option"

definition CommentForm_validate :: "CommentForm \<Rightarrow> bool" where
  "CommentForm_validate f \<longleftrightarrow>
     cf_submitted f \<and> DataRequired (strip_filter (cf_content f)) \<and>
     1 \<le> data_len (strip_filter (cf_content f)) \<and>
     data_len (strip_filter (cf_content f)) \<le> 2000"

text \<open>
  A form built with \<open>obj=\<close> (\<open>PostForm(obj=post)\<close>, \<open>CommentForm(obj=comment)\<close>) takes the
  value of a field that the request does not carry from the attribute of that name of the
  object; the filters run on it as on a submitted value, and \<open>Optional\<close> still sees an
  absent field. \<open>Post\<close> has \<open>title\<close> and \<open>content\<close>, \<open>Comment\<close> has \<open>content\<close>; the
  file fields find no attribute of their name.
\<close>

definition field_data :: "pystr option \<Rightarrow> pystr option \<Rightarrow> pystr option" where
  "field_data object_data raw =
     strip_filter (case raw of None \<Rightarrow> object_data | Some r \<Rightarrow> Some r)"

definition PostForm_validate_obj :: "post \<Rightarrow> PostForm \<Rightarrow> bool" where
  "PostForm_validate_obj p f \<longleftrightarrow>
     pf_submitted f \<and>
     (Optional_blank (pf_title f) \<or> data_len (field_data (Some (title p)) (pf_title f)) \<le> 200) \<and>
     DataRequired (field_data (post_content p) (pf_content f)) \<and>
     1 \<le> data_len (field_data (post_content p) (pf_content f))"

definition CommentForm_validate_obj :: "comment \<Rightarrow> CommentForm \<Rightarrow> bool" where
  "CommentForm_validate_obj c f \<longleftrightarrow>
     cf_submitted f \<and>
     DataRequired (field_data (Some (comment_content c)) (cf_content f)) \<and>
     1 \<le> data_len (field_data (Some (comment_content c)) (cf_content f)) \<and>
     data_len (field_data (Some (comment_content c)) (cf_content f)) \<le> 2000"

record RegistrationForm =
  rf_submitted :: bool
  rf_username :: "pystr option"
  rf_email :: "pystr option"
  rf_track :: "pystr option"
  rf_skills :: "pystr option"
  rf_available_for_project :: bool
  rf_password :: "pystr option"
  rf_confirm_password :: "pystr option"
  rf_profile_image :: "pystr option"
  rf_cv_file :: "pystr option"

definition track_choices :: "pystr list" where
  "track_choices =
     [py ''Web Development'', py ''Mobile App'', py ''Data Science'',
      py ''AI & Machine Learning'', py ''Cybersecurity'', py ''Game Development'',
      py ''Embedded Systems'', py ''Other'']"

definition RegistrationForm_validate :: "RegistrationForm \<Rightarrow> bool" where
  "RegistrationForm_validate f \<longleftrightarrow>
     rf_submitted f \<and>
     DataRequired (strip_filter (rf_username f)) \<and>
     3 \<le> data_len (strip_filter (rf_username f)) \<and>
     data_len (strip_filter (rf_username f)) \<le> 50 \<and>
     DataRequired (strip_filter (rf_email f)) \<and>
     data_len (strip_filter (rf_email f)) \<le> 120 \<and>
     DataRequired (rf_track f) \<and> data_str (rf_track f) \<in> set track_choices \<and>
     DataRequired (strip_filter (rf_skills f)) \<and>
     data_len (strip_filter (rf_skills f)) \<le> 200 \<and>
     DataRequired (rf_password f) \<and> 6 \<le> data_len (rf_password f) \<and>
     DataRequired (rf_confirm_password f) \<and> rf_confirm_password f = rf_password f"

record LoginForm =
  lf_submitted :: bool
  lf_email :: "pystr option"
  lf_password :: "pystr option"
  lf_next :: "pystr option"

definition LoginForm_validate :: "LoginForm \<Rightarrow> bool" where
  "LoginForm_validate f \<longleftrightarrow>
     lf_submitted f \<and>
     DataRequired (strip_filter (lf_email f)) \<and>
     data_len (strip_filter (lf_email f)) \<le> 120 \<and>
     DataRequired (lf_password f)"

section \<open>Post routes (app.py)\<close>

text \<open>
  The title of a new post, from \<open>form.title.data\<close> and \<open>form.content.data\<close>: the lines
  of \<open>new_post\<close> from \<open>content_text = ...\<close> to the \<open>title=\<close> argument of \<open>Post\<close>.
  The ellipsis is the code point 8230.
\<close>

definition ellipsis :: pystr where
  "ellipsis = [8230]"

definition auto_title :: "pystr option \<Rightarrow> pystr option \<Rightarrow> pystr" where
  "auto_title title_data content_data =
     (let content_text = or_opt content_data [];
          t = strip (or_opt title_data []);
          t' = (if t = []
                then (if 80 < length content_text
                      then strip (take 80 content_text) @ ellipsis
                      else strip (take 80 content_text))
                else t)
      in or_str t' (py ''Untitled''))"

definition new_post :: "database \<Rightarrow> session \<Rightarrow> PostForm \<Rightarrow> outcome" where
  "new_post db sess form =
     (case current_user db sess of
        None \<Rightarrow> unauthorized db sess
      | Some uid \<Rightarrow>
          if PostForm_validate form
          then \<lparr>db_after = db
                  \<lparr>posts := insert_row
                     \<lparr>title = auto_title (strip_filter (pf_title form))
                                (strip_filter (pf_content form)),
                      post_content = Some (or_opt (strip_filter (pf_content form)) []),
                      image_file = pf_image form,
                      video_file = pf_video form,
                      post_user_id = uid,
                      likes_count = 0\<rparr> (posts db)\<rparr>,
                session_after = sess,
                flashes = [(py ''Post published to CS Community.'', ''success'')],
                response = Redirect (PostDetail (next_id (posts db)))\<rparr>
          else \<lparr>db_after = db, session_after = sess, flashes = [],
                response = Render ''new_post.html''\<rparr>)"

text \<open>
  \<open>edit_post\<close> builds the form from the post and assigns \<open>form.title.data\<close> to the
  title. An absent title field keeps the title of the post; a title field that is the
  empty string has the data \<open>None\<close>, and the column is not nullable, so the commit raises.
\<close>

definition edit_post :: "database \<Rightarrow> session \<Rightarrow> nat \<Rightarrow> PostForm \<Rightarrow> outcome" where
  "edit_post db sess post_id form =
     (case current_user db sess of
        None \<Rightarrow> unauthorized db sess
      | Some uid \<Rightarrow>
          (case get_row (posts db) post_id of
             None \<Rightarrow> \<lparr>db_after = db, session_after = sess, flashes = [], response = Abort 404\<rparr>
           | Some p \<Rightarrow>
               if post_user_id p \<noteq> uid
               then \<lparr>db_after = db, session_after = sess, flashes = [], response = Abort 403\<rparr>
               else if PostForm_validate_obj p form
               then (case field_data (Some (title p)) (pf_title form) of
                       None \<Rightarrow> \<lparr>db_after = db, session_after = sess, flashes = [],
                                 response = Raised IntegrityError\<rparr>
                     | Some t \<Rightarrow>
                         \<lparr>db_after = db
                            \<lparr>posts := update_row post_id
                               (p\<lparr>title := t,
                                  post_content := field_data (post_content p) (pf_content form),
                                  image_file := (case pf_image form of
                                                   None \<Rightarrow> image_file p | Some n \<Rightarrow> Some n),
                                  video_file := (case pf_video form of
                                                   None \<Rightarrow> video_file p | Some n \<Rightarrow> Some n)\<rparr>)
                               (posts db)\<rparr>,
                          session_after = sess,
                          flashes = [(py ''Post updated.'', ''success'')],
                          response = Redirect (PostDetail post_id)\<rparr>)
               else \<lparr>db_after = db, session_after = sess, flashes = [],
                     response = Render ''edit_post.html''\<rparr>))"

text \<open>Deleting a post deletes its comments and likes with it (the cascade of models.py).\<close>

definition delete_post :: "database \<Rightarrow> session \<Rightarrow> nat \<Rightarrow> outcome" where
  "delete_post db sess post_id =
     (case current_user db sess of
        None \<Rightarrow> unauthorized db sess
      | Some uid \<Rightarrow>
          (case get_row (posts db) post_id of
             None \<Rightarrow> \<lparr>db_after = db, session_after = sess, flashes = [], response = Abort 404\<rparr>
           | Some p \<Rightarrow>
               if post_user_id p \<noteq> uid
               then \<lparr>db_after = db, session_after = sess, flashes = [], response = Abort 403\<rparr>
               else \<lparr>db_after = db
                       \<lparr>posts := delete_row post_id (posts db),
                        comments := filter (\<lambda>kr. comment_post_id (snd kr) \<noteq> post_id)
                                      (comments db),
                        likes := filter (\<lambda>kr. like_post_id (snd kr) \<noteq> post_id) (likes db)\<rparr>,
                     session_after = sess,
                     flashes = [(py ''Post deleted.'', ''info'')],
                     response = Redirect (Endpoint ''home'')\<rparr>))"

section \<open>Comment routes (app.py)\<close>

definition add_comment :: "database \<Rightarrow> session \<Rightarrow> nat \<Rightarrow> CommentForm \<Rightarrow> outcome" where
  "add_comment db sess post_id form =
     (case current_user db sess of
        None \<Rightarrow> unauthorized db sess
      | Some uid \<Rightarrow>
          (case get_row (posts db) post_id of
             None \<Rightarrow> \<lparr>db_after = db, session_after = sess, flashes = [], response = Abort 404\<rparr>
           | Some p \<Rightarrow>
               if CommentForm_validate form
               then \<lparr>db_after = db
                       \<lparr>comments := insert_row
                          \<lparr>comment_content = data_str (strip_filter (cf_content form)),
                           comment_user_id = uid, comment_post_id = post_id\<rparr> (comments db)\<rparr>,
                     session_after = sess,
                     flashes = [(py ''Comment posted.'', ''success'')],
                     response = Redirect (PostDetail post_id)\<rparr>
               else \<lparr>db_after = db, session_after = sess,
                     flashes = [(py ''Comment could not be posted.'', ''warning'')],
                     response = Redirect (PostDetail post_id)\<rparr>))"

definition edit_comment :: "database \<Rightarrow> session \<Rightarrow> nat \<Rightarrow> CommentForm \<Rightarrow> outcome" where
  "edit_comment db sess comment_id form =
     (case current_user db sess of
        None \<Rightarrow> unauthorized db sess
      | Some uid \<Rightarrow>
          (case get_row (comments db) comment_id of
             None \<Rightarrow> \<lparr>db_after = db, session_after = sess, flashes = [], response = Abort 404\<rparr>
           | Some c \<Rightarrow>
               if comment_user_id c \<noteq> uid
               then \<lparr>db_after = db, session_after = sess, flashes = [], response = Abort 403\<rparr>
               else if CommentForm_validate_obj c form
               then \<lparr>db_after = db
                       \<lparr>comments := update_row comment_id
                          (c\<lparr>comment_content :=
                               data_str (field_data (Some (comment_content c)) (cf_content form))\<rparr>)
                          (comments db)\<rparr>,
                     session_after = sess,
                     flashes = [(py ''Comment updated.'', ''success'')],
                     response = Redirect (PostDetail (comment_post_id c))\<rparr>
               else \<lparr>db_after = db, session_after = sess, flashes = [],
                     response = Render ''edit_comment.html''\<rparr>))"

definition delete_comment :: "database \<Rightarrow> session \<Rightarrow> nat \<Rightarrow> outcome" where
  "delete_comment db sess comment_id =
     (case current_user db sess of
        None \<Rightarrow> unauthorized db sess
      | Some uid \<Rightarrow>
          (case get_row (comments db) comment_id of
             None \<Rightarrow> \<lparr>db_after = db, session_after = sess, flashes = [], response = Abort 404\<rparr>
           | Some c \<Rightarrow>
               if comment_user_id c \<noteq> uid
               then \<lparr>db_after = db, session_after = sess, flashes = [], response = Abort 403\<rparr>
               else \<lparr>db_after = db\<lparr>comments := delete_row comment_id (comments db)\<rparr>,
                     session_after = sess,
                     flashes = [(py ''Comment deleted.'', ''info'')],
                     response = Redirect (PostDetail (comment_post_id c))\<rparr>))"

section \<open>Registration and login (app.py)\<close>

text \<open>
  The commit that inserts a \<open>User\<close> row. models.py declares \<open>username\<close> and \<open>email\<close>
  unique and \<open>password_hash\<close> not nullable; a row that breaks one of these makes the
  commit raise \<open>IntegrityError\<close> and nothing is stored.
\<close>

definition add_user :: "user \<Rightarrow> database \<Rightarrow> exn + database" where
  "add_user u db =
     (if password_hash u = None \<or>
         username u \<in> set (map (\<lambda>kr. username (snd kr)) (users db)) \<or>
         email u \<in> set (map (\<lambda>kr. email (snd kr)) (users db))
      then Inl IntegrityError
      else Inr (db\<lparr>users := insert_row u (users db)\<rparr>))"

text \<open>
  The \<open>User\<close> that \<open>register\<close> builds from the form, with the hash that
  \<open>set_password\<close> stores; the argument \<open>generate_password_hash\<close> is werkzeug's
  function of that name.
\<close>

definition new_user :: "(pystr \<Rightarrow> pystr) \<Rightarrow> RegistrationForm \<Rightarrow> user" where
  "new_user generate_password_hash form =
     \<lparr>username = data_str (strip_filter (rf_username form)),
      email = data_str (strip_filter (rf_email form)),
      password_hash = Some (generate_password_hash (data_str (rf_password form))),
      track = rf_track form,
      skills = strip_filter (rf_skills form),
      available_for_project = rf_available_for_project form,
      github_link = None, portfolio_link = None, linkedin_link = None,
      phone_number = None,
      cv_file = rf_cv_file form,
      profile_image = (case rf_profile_image form of
                         None \<Rightarrow> py ''default_profile.png''
                       | Some n \<Rightarrow> n)\<rparr>"

definition register ::
  "(pystr \<Rightarrow> pystr) \<Rightarrow> database \<Rightarrow> session \<Rightarrow> RegistrationForm \<Rightarrow> outcome" where
  "register generate_password_hash db sess form =
     (case current_user db sess of
        Some uid \<Rightarrow> \<lparr>db_after = db, session_after = sess, flashes = [],
                     response = Redirect (Endpoint ''home'')\<rparr>
      | None \<Rightarrow>
          if RegistrationForm_validate form
          then (case first_row
                       (\<lambda>u. Some (username u) = strip_filter (rf_username form) \<or>
                            Some (email u) = strip_filter (rf_email form)) (users db) of
                  Some existing \<Rightarrow>
                    \<lparr>db_after = db, session_after = sess,
                     flashes = [(py ''Username or email already registered.'', ''warning'')],
                     response = Render ''register.html''\<rparr>
                | None \<Rightarrow>
                    (case add_user (new_user generate_password_hash form) db of
                       Inl e \<Rightarrow> \<lparr>db_after = db, session_after = sess, flashes = [],
                                 response = Raised e\<rparr>
                     | Inr db' \<Rightarrow>
                         \<lparr>db_after = db', session_after = sess,
                          flashes = [(py ''Welcome to CS Community! Your account is ready.'',
                                      ''success'')],
                          response = Redirect (Endpoint ''login'')\<rparr>))
          else \<lparr>db_after = db, session_after = sess, flashes = [],
                response = Render ''register.html''\<rparr>)"

text \<open>
  \<open>User.check_password\<close> hands the stored hash to werkzeug's \<open>check_password_hash\<close>
  (the argument of that name). That function calls a string method on the hash, so a
  hash that is \<open>None\<close> raises \<open>AttributeError\<close>.
\<close>

definition check_password :: "(pystr \<Rightarrow> pystr \<Rightarrow> bool) \<Rightarrow> user \<Rightarrow> pystr \<Rightarrow> exn + bool" where
  "check_password check_password_hash u password =
     (case password_hash u of
        None \<Rightarrow> Inl AttributeError
      | Some h \<Rightarrow> Inr (check_password_hash h password))"

definition incorrect_login :: "database \<Rightarrow> session \<Rightarrow> outcome" where
  "incorrect_login db sess =
     \<lparr>db_after = db, session_after = sess,
      flashes = [(py ''Incorrect email or password.'', ''danger'')],
      response = Render ''login.html''\<rparr>"

definition login ::
  "(pystr \<Rightarrow> pystr \<Rightarrow> bool) \<Rightarrow> database \<Rightarrow> session \<Rightarrow> LoginForm \<Rightarrow> outcome" where
  "login check_password_hash db sess form =
     (case current_user db sess of
        Some uid \<Rightarrow> \<lparr>db_after = db, session_after = sess, flashes = [],
                     response = Redirect (Endpoint ''home'')\<rparr>
      | None \<Rightarrow>
          if LoginForm_validate form
          then (case first_row (\<lambda>u. Some (email u) = strip_filter (lf_email form)) (users db) of
                  None \<Rightarrow> incorrect_login db sess
                | Some found \<Rightarrow>
                    (case check_password check_password_hash (snd found)
                            (data_str (lf_password form)) of
                       Inl e \<Rightarrow> \<lparr>db_after = db, session_after = sess, flashes = [],
                                 response = Raised e\<rparr>
                     | Inr ok \<Rightarrow>
                         if ok
                         then \<lparr>db_after = db, session_after = Some (fst found),
                               flashes = [(py ''Welcome back, '' @ username (snd found) @ py ''!'',
                                           ''success'')],
                               response = Redirect
                                 (if or_opt (lf_next form) [] = [] then Endpoint ''home''
                                  else Url (or_opt (lf_next form) []))\<rparr>
                         else incorrect_login db sess))
          else \<lparr>db_after = db, session_after = sess, flashes = [],
                response = Render ''login.html''\<rparr>)"

section \<open>Google sign-in (oauth.py)\<close>

text \<open>
  What the identity provider and the OAuth client library hand to \<open>google_callback\<close>:
  the token exchange fails, or the ID token does not validate (this is where the nonce is
  checked), or the claims of the token arrive; a claim is \<open>None\<close> when absent.
\<close>

record user_info =
  ui_sub :: "pystr option"
  ui_email :: "pystr option"
  ui_name :: "pystr option"
  ui_picture :: "pystr option"
  ui_given_name :: "pystr option"

datatype oauth_reply = TokenExchangeFailed | IdTokenInvalid | UserInfo user_info

text \<open>
  \<open>google_callback\<close>. After the two guards the callback runs
  \<open>User.query.filter_by(google_id=google_id)\<close>. The class \<open>User\<close> of models.py has no
  attribute \<open>google_id\<close>, so this query raises \<open>InvalidRequestError\<close>, and no handler
  catches it. The statements after it (the lookup by e-mail address, the link, the
  construction of a new \<open>User\<close>, \<open>login_user\<close>) are never run.
\<close>

definition google_callback :: "database \<Rightarrow> session \<Rightarrow> oauth_reply \<Rightarrow> outcome" where
  "google_callback db sess reply =
     (case reply of
        TokenExchangeFailed \<Rightarrow>
          \<lparr>db_after = db, session_after = sess,
           flashes = [(py ''Google sign-in failed. Please try again.'', ''danger'')],
           response = Redirect (Endpoint ''login'')\<rparr>
      | IdTokenInvalid \<Rightarrow>
          \<lparr>db_after = db, session_after = sess,
           flashes = [(py ''Authentication error. Please try again.'', ''danger'')],
           response = Redirect (Endpoint ''login'')\<rparr>
      | UserInfo ui \<Rightarrow>
          if or_opt (ui_sub ui) [] = [] \<or> or_opt (ui_email ui) [] = []
          then \<lparr>db_after = db, session_after = sess,
                flashes = [(py ''Could not retrieve your Google account details.'', ''danger'')],
                response = Redirect (Endpoint ''login'')\<rparr>
          else \<lparr>db_after = db, session_after = sess, flashes = [],
                response = Raised InvalidRequestError\<rparr>)"






section \<open>Example data\<close>

text \<open>A small database with two members and one fresh post, used to run the routes.\<close>

definition member :: "pystr \<Rightarrow> pystr \<Rightarrow> user" where
  "member name mail =
     \<lparr>username = name, email = mail, password_hash = Some (py ''pbkdf2$salt$digest''),
      track = None, skills = None, available_for_project = True,
      github_link = None, portfolio_link = None, linkedin_link = None, phone_number = None,
      cv_file = None, profile_image = py ''default_profile.png''\<rparr>"

definition fresh_post :: "nat \<Rightarrow> post" where
  "fresh_post author =
     \<lparr>title = py ''Hello'', post_content = Some (py ''Hello''), image_file = None,
      video_file = None, post_user_id = author, likes_count = 0\<rparr>"

definition small_db :: database where
  "small_db =
     \<lparr>users = [(1, member (py ''ann'') (py ''ann@x.org'')),
               (2, member (py ''bob'') (py ''bob@x.org''))],
      posts = [(1, fresh_post 1)], comments = [], likes = []\<rparr>"

text \<open>The same database with a like by member 1 that the counter of post 1 has missed.\<close>

definition desync_db :: database where
  "desync_db = small_db\<lparr>likes := [(1, \<lparr>like_user_id = 1, like_post_id = 1\<rparr>)]\<rparr>"

text \<open>The same database after member 1 has liked post 1.\<close>

definition liked_db :: database where
  "liked_db = small_db
     \<lparr>posts := [(1, (fresh_post 1)\<lparr>likes_count := 1\<rparr>)],
      likes := [(1, \<lparr>like_user_id = 1, like_post_id = 1\<rparr>)]\<rparr>"

text \<open>Forms for \<open>new_post\<close>, and two contents of 100 and of 50 code points.\<close>

definition post_form :: "pystr option \<Rightarrow> pystr option \<Rightarrow> PostForm" where
  "post_form t c =
     \<lparr>pf_submitted = True, pf_title = t, pf_content = c, pf_image = None, pf_video = None\<rparr>"

definition text100 :: pystr where
  "text100 = py ''0123456789012345678901234567890123456789012345678901234567890123456789012345678901234567890123456789''"

definition text50 :: pystr where
  "text50 = py ''Looking for two teammates for a compiler project!!''"

text \<open>The small database with a comment by member 1, and forms to submit.\<close>

definition comment_db :: database where
  "comment_db = small_db
     \<lparr>comments := [(1, \<lparr>comment_content = py ''Nice'', comment_user_id = 1, comment_post_id = 1\<rparr>)]\<rparr>"

definition comment_form :: "pystr option \<Rightarrow> CommentForm" where
  "comment_form c = \<lparr>cf_submitted = True, cf_content = c\<rparr>"

definition login_form :: "pystr \<Rightarrow> pystr \<Rightarrow> LoginForm" where
  "login_form mail pw =
     \<lparr>lf_submitted = True, lf_email = Some mail, lf_password = Some pw, lf_next = None\<rparr>"

text \<open>A stand-in for werkzeug's check: the only password that matches a hash is \<open>secret1\<close>.\<close>

definition check_secret :: "pystr \<Rightarrow> pystr \<Rightarrow> bool" where
  "check_secret h pw \<longleftrightarrow> pw = py ''secret1''"

definition registration_form :: "pystr \<Rightarrow> pystr \<Rightarrow> RegistrationForm" where
  "registration_form name mail =
     \<lparr>rf_submitted = True, rf_username = Some name, rf_email = Some mail,
      rf_track = Some (py ''Other''), rf_skills = Some (py ''Python''),
      rf_available_for_project = True, rf_password = Some (py ''secret1''),
      rf_confirm_password = Some (py ''secret1''), rf_profile_image = None, rf_cv_file = None\<rparr>"

text \<open>A stand-in for werkzeug's hash function.\<close>

definition hash_stub :: "pystr \<Rightarrow> pystr" where
  "hash_stub pw = py ''pbkdf2$salt$'' @ pw"



definition google_user :: "pystr \<Rightarrow> pystr \<Rightarrow> pystr \<Rightarrow> user_info" where
  "google_user sub mail name =
     \<lparr>ui_sub = Some sub, ui_email = Some mail, ui_name = Some name,
      ui_picture = None, ui_given_name = None\<rparr>"

definition taken_db :: database where
  "taken_db = small_db
     \<lparr>users := users small_db @ [(3, member (py ''ann_abcdef'') (py ''ann2@x.org''))]\<rparr>"

section \<open>Properties of tables\<close>

lemma get_row_update_row:
  "get_row (update_row k r t) k' =
     (if k' = k then (case get_row t k of None \<Rightarrow> None | Some x \<Rightarrow> Some r) else get_row t k')"
  by (induction t) (auto simp: get_row_def update_row_def)

lemma fold_max_mem: "x \<in> set xs \<Longrightarrow> x \<le> fold max xs (a::nat)"
proof -
  assume "x \<in> set xs"
  then have "x \<le> Max (set (a # xs))" by (intro Max_ge) auto
  then show ?thesis by (simp only: Max.set_eq_fold)
qed

lemma next_id_fresh: "kr \<in> set t \<Longrightarrow> fst kr < next_id t"
  unfolding next_id_def using fold_max_mem[of "fst kr" "map fst t" 0] by auto

lemma keys_distinct_insert_row: "keys_distinct t \<Longrightarrow> keys_distinct (insert_row r t)"
  using next_id_fresh[of _ t] by (fastforce simp: keys_distinct_def insert_row_def)

lemma keys_distinct_delete_row: "keys_distinct t \<Longrightarrow> keys_distinct (delete_row k t)"
  by (simp add: keys_distinct_def delete_row_def distinct_map_filter)

lemma first_row_Some: "first_row P t = Some kr \<Longrightarrow> kr \<in> set t \<and> P (snd kr)"
  unfolding first_row_def by (auto simp: find_Some_iff)

lemma first_row_None: "first_row P t = None \<longleftrightarrow> (\<forall>kr \<in> set t. \<not> P (snd kr))"
  unfolding first_row_def by (auto simp: find_None_iff)

lemma first_row_append_new:
  "first_row P t = None \<Longrightarrow> P r \<Longrightarrow> first_row P (t @ [(k, r)]) = Some (k, r)"
  by (induction t) (auto simp: first_row_def split: if_splits)

lemma delete_row_insert_row: "delete_row (next_id t) (insert_row r t) = t"
proof -
  have "\<forall>kr \<in> set t. fst kr \<noteq> next_id t"
    using next_id_fresh[of _ t] by fastforce
  then show ?thesis
    by (simp add: delete_row_def insert_row_def filter_id_conv)
qed

lemma update_row_same:
  "keys_distinct t \<Longrightarrow> get_row t k = Some r \<Longrightarrow> update_row k r t = t"
  unfolding update_row_def keys_distinct_def get_row_def
  by (intro map_idI) (auto simp: prod_eq_iff dest: map_of_SomeD eq_key_imp_eq_value)

lemma update_row_twice: "update_row k r (update_row k r' t) = update_row k r t"
  by (simp add: update_row_def comp_def)

text \<open>Deleting a row by its key removes exactly that row from any selection.\<close>

lemma length_filter_delete_row:
  "keys_distinct t \<Longrightarrow> kr \<in> set t \<Longrightarrow>
   length (filter P (delete_row (fst kr) t)) =
     (if P kr then length (filter P t) - 1 else length (filter P t))"
proof (induction t)
  case Nil then show ?case by simp
next
  case (Cons a t)
  show ?case
  proof (cases "a = kr")
    case True
    with Cons.prems have "\<forall>x \<in> set t. fst x \<noteq> fst kr"
      by (auto simp: keys_distinct_def image_iff)
    then have "delete_row (fst kr) t = t"
      by (simp add: delete_row_def filter_id_conv)
    with True show ?thesis by (simp add: delete_row_def)
  next
    case False
    with Cons.prems have m: "kr \<in> set t" and d: "keys_distinct t" and n: "fst a \<noteq> fst kr"
      by (auto simp: keys_distinct_def image_iff)
    from m have "P kr \<Longrightarrow> 0 < length (filter P t)"
      by (auto simp: filter_empty_conv)
    with Cons.IH[OF d m] n show ?thesis
      by (auto simp: delete_row_def)
  qed
qed

lemma current_user_cong:
  "users db' = users db \<Longrightarrow> current_user db' sess = current_user db sess"
  by (simp add: current_user_def load_user_def split: option.splits)

lemmas example_defs = small_db_def desync_db_def liked_db_def comment_db_def taken_db_def
  fresh_post_def member_def

lemmas table_defs = get_row_def first_row_def insert_row_def next_id_def delete_row_def
  update_row_def keys_distinct_def

lemmas like_defs = toggle_like_def current_user_def load_user_def first_like_def
  uix_user_post_violated_def or_int_def like_count_def like_set_def liked_def
  uix_user_post_def unauthorized_def

section \<open>The like counter\<close>

lemma uix_delete_row: "uix_user_post t \<Longrightarrow> uix_user_post (delete_row k t)"
  by (simp add: uix_user_post_def delete_row_def distinct_map_filter)

lemma uix_insert_row:
  "uix_user_post t \<Longrightarrow> \<not> uix_user_post_violated t u p \<Longrightarrow>
   uix_user_post (insert_row \<lparr>like_user_id = u, like_post_id = p\<rparr> t)"
  by (auto simp: uix_user_post_def uix_user_post_violated_def insert_row_def)

lemma toggle_like_tables:
  assumes "keys_distinct (likes db)" and "uix_user_post (likes db)"
  shows "keys_distinct (likes (db_after (toggle_like db sess q))) \<and>
         uix_user_post (likes (db_after (toggle_like db sess q)))"
  using assms
  by (auto simp: toggle_like_def unauthorized_def keys_distinct_insert_row
        keys_distinct_delete_row uix_delete_row uix_insert_row
      split: option.splits)

text \<open>The lookup of \<open>toggle_like\<close> makes the constraint hold: the \<open>except\<close> branch is dead.\<close>

lemma first_like_None_not_violated:
  "first_like db u p = None \<Longrightarrow> \<not> uix_user_post_violated (likes db) u p"
  by (auto simp: first_like_def first_row_None uix_user_post_violated_def)

lemma not_liked_iff: "\<not> liked db u p \<longleftrightarrow> first_like db u p = None"
  by (cases "first_like db u p") (simp_all add: liked_def)

lemma like_set_delete:
  assumes "keys_distinct (likes db)" and "first_like db u q = Some kr"
  shows "int (length (like_set (db\<lparr>likes := delete_row (fst kr) (likes db), posts := ps\<rparr>) pid)) =
         (if q = pid then int (length (like_set db pid)) - 1 else int (length (like_set db pid)))"
    and "q = pid \<Longrightarrow> 0 < length (like_set db pid)"
proof -
  let ?P = "\<lambda>kr. like_post_id (snd kr) = pid"
  from assms(2) have m: "kr \<in> set (likes db)" and p: "like_post_id (snd kr) = q"
    by (auto simp: first_like_def dest: first_row_Some)
  show pos: "q = pid \<Longrightarrow> 0 < length (like_set db pid)"
    using m p by (auto simp: like_set_def filter_empty_conv)
  have d: "length (filter ?P (delete_row (fst kr) (likes db))) =
        (if ?P kr then length (filter ?P (likes db)) - 1 else length (filter ?P (likes db)))"
    by (rule length_filter_delete_row[OF assms(1) m])
  show "int (length (like_set (db\<lparr>likes := delete_row (fst kr) (likes db), posts := ps\<rparr>) pid)) =
         (if q = pid then int (length (like_set db pid)) - 1 else int (length (like_set db pid)))"
  proof (cases "q = pid")
    case True
    define n where "n = length (filter ?P (likes db))"
    from pos True have "0 < n" by (simp add: like_set_def n_def)
    then have "int (n - 1) = int n - 1" by simp
    with d p True show ?thesis unfolding like_set_def n_def by simp
  next
    case False
    with d p show ?thesis by (simp add: like_set_def)
  qed
qed

lemma like_set_insert:
  "length (like_set (db\<lparr>likes := insert_row \<lparr>like_user_id = u, like_post_id = q\<rparr> (likes db),
                         posts := ps\<rparr>) pid) =
   (if q = pid then Suc (length (like_set db pid)) else length (like_set db pid))"
  by (simp add: like_set_def insert_row_def)

text \<open>One request keeps the counter of every post equal to the number of its likes.\<close>

lemma toggle_like_counter:
  assumes "keys_distinct (likes db)"
    and "like_count db pid = Some (int (length (like_set db pid)))"
  shows "like_count (db_after (toggle_like db sess q)) pid =
         Some (int (length (like_set (db_after (toggle_like db sess q)) pid)))"
proof (cases "current_user db sess")
  case None
  with assms show ?thesis by (simp add: toggle_like_def unauthorized_def)
next
  case (Some uid)
  show ?thesis
  proof (cases "get_row (posts db) q")
    case None
    with Some assms show ?thesis by (simp add: toggle_like_def)
  next
    case p: (Some p)
    show ?thesis
    proof (cases "first_like db uid q")
      case None
      with Some p assms(2) first_like_None_not_violated[OF None] show ?thesis
        by (auto simp: toggle_like_def like_count_def get_row_update_row like_set_insert or_int_def)
    next
      case e: (Some kr)
      with Some p assms(2) like_set_delete[OF assms(1) e] show ?thesis
        by (auto simp: toggle_like_def like_count_def get_row_update_row or_int_def)
    qed
  qed
qed

lemma toggles_invariant:
  assumes "keys_distinct (likes db)" and "uix_user_post (likes db)"
    and "like_count db pid = Some (int (length (like_set db pid)))"
  shows "keys_distinct (likes (toggles db rs)) \<and> uix_user_post (likes (toggles db rs)) \<and>
         like_count (toggles db rs) pid = Some (int (length (like_set (toggles db rs) pid)))"
  using assms
proof (induction rs arbitrary: db)
  case Nil
  then show ?case by simp
next
  case (Cons r rs)
  let ?db = "db_after (toggle_like db (Some (fst r)) (snd r))"
  have "keys_distinct (likes ?db)" "uix_user_post (likes ?db)"
    using toggle_like_tables[OF Cons.prems(1,2)] by simp_all
  moreover have "like_count ?db pid = Some (int (length (like_set ?db pid)))"
    by (rule toggle_like_counter[OF Cons.prems(1,3)])
  ultimately show ?case using Cons.IH[of ?db] by simp
qed

text \<open>
  C1. Take a well-formed \<open>Like\<close> table and a fresh post: its counter is 0 and no like
  belongs to it. After any sequence of like requests, by any members and on any posts, the
  counter of the post equals the number of \<open>Like\<close> rows of the post, and no two rows of
  the table have the same (member, post) pair.
\<close>

theorem like_count_equals_like_set:
  assumes "keys_distinct (likes db)" and "uix_user_post (likes db)"
    and "like_count db pid = Some 0" and "like_set db pid = []"
  shows "like_count (toggles db rs) pid = Some (int (length (like_set (toggles db rs) pid))) \<and>
         uix_user_post (likes (toggles db rs))"
  using toggles_invariant[OF assms(1,2), of pid rs] assms(3,4) by simp

lemma small_db_run:
  "like_count (toggles small_db [(1, 1), (2, 1), (1, 1)]) 1 = Some 1"
  "likes (toggles small_db [(1, 1), (2, 1), (1, 1)]) =
     [(2, \<lparr>like_user_id = 2, like_post_id = 1\<rparr>)]"
  by (simp_all add: example_defs table_defs like_defs)

theorem like_count_equals_like_set_witness:
  "keys_distinct (likes small_db) \<and> uix_user_post (likes small_db) \<and>
   like_count small_db 1 = Some 0 \<and> like_set small_db 1 = [] \<and>
   like_count (toggles small_db [(1, 1), (2, 1), (1, 1)]) 1 =
     Some (int (length (like_set (toggles small_db [(1, 1), (2, 1), (1, 1)]) 1))) \<and>
   uix_user_post (likes (toggles small_db [(1, 1), (2, 1), (1, 1)]))"
proof -
  have h: "keys_distinct (likes small_db)" "uix_user_post (likes small_db)"
    "like_count small_db 1 = Some 0" "like_set small_db 1 = []"
    by (simp_all add: example_defs table_defs like_defs)
  from like_count_equals_like_set[OF h, of "[(1, 1), (2, 1), (1, 1)]"] h
  show ?thesis by simp
qed

text \<open>A post that \<open>new_post\<close> has just stored starts with the counter 0.\<close>

lemma get_row_insert_row: "get_row (insert_row r t) (next_id t) = Some r"
proof -
  have "next_id t \<notin> fst ` set t" using next_id_fresh[of _ t] by fastforce
  then have "map_of t (next_id t) = None" by (simp add: map_of_eq_None_iff)
  then show ?thesis by (simp add: get_row_def insert_row_def map_add_def)
qed

lemma new_post_fresh:
  assumes "current_user db sess = Some uid" and "PostForm_validate form"
  shows "like_count (db_after (new_post db sess form)) (next_id (posts db)) = Some 0"
    and "likes (db_after (new_post db sess form)) = likes db"
  using assms by (simp_all add: new_post_def like_count_def get_row_insert_row)

section \<open>The like counter is never negative\<close>

lemma toggle_like_count_cases:
  "like_count (db_after (toggle_like db sess q)) pid = like_count db pid \<or>
   (\<exists>c. like_count db pid = Some c \<and>
      (like_count (db_after (toggle_like db sess q)) pid = Some (max (c - 1) 0) \<or>
       like_count (db_after (toggle_like db sess q)) pid = Some (c + 1)))"
  by (auto simp: toggle_like_def unauthorized_def like_count_def get_row_update_row or_int_def
      split: option.splits)

text \<open>A request never takes the counter below 0, and never below where it was if that is lower.\<close>

lemma toggle_like_floor:
  assumes "like_count db pid = Some c"
  shows "\<exists>c'. like_count (db_after (toggle_like db sess q)) pid = Some c' \<and> min c 0 \<le> c'"
  using toggle_like_count_cases[of db sess q pid] assms by auto

lemma toggles_floor:
  assumes "like_count db pid = Some c"
  shows "\<exists>c'. like_count (toggles db rs) pid = Some c' \<and> min c 0 \<le> c'"
  using assms
proof (induction rs arbitrary: db c)
  case Nil
  then show ?case by simp
next
  case (Cons r rs)
  from toggle_like_floor[OF Cons.prems, of "Some (fst r)" "snd r"]
  obtain c1 where c1: "like_count (db_after (toggle_like db (Some (fst r)) (snd r))) pid = Some c1"
    "min c 0 \<le> c1"
    by blast
  from Cons.IH[OF c1(1)] obtain c' where
    "like_count (toggles (db_after (toggle_like db (Some (fst r)) (snd r))) rs) pid = Some c'"
    "min c1 0 \<le> c'"
    by blast
  with c1(2) show ?case by auto
qed

lemma toggle_like_clamp:
  assumes "current_user db sess = Some uid" and "like_count db pid = Some c"
    and "liked db uid pid"
  shows "like_count (db_after (toggle_like db sess pid)) pid = Some (max (c - 1) 0)"
  using assms
  by (auto simp: toggle_like_def liked_def like_count_def get_row_update_row or_int_def
      split: option.splits)

text \<open>
  C3. The counter of a post never becomes negative. Start from any counter \<open>c\<close> and any
  \<open>Like\<close> table (the two need not agree). After any sequence of like requests the post
  still has a counter \<open>c'\<close>, and \<open>min c 0 \<le> c'\<close>: a counter that is not negative stays
  so. And the branch that removes a like leaves \<open>max (c - 1) 0\<close>, which is not negative
  for any integer \<open>c\<close>.
\<close>

theorem like_count_never_negative:
  "(like_count db pid = Some c \<longrightarrow>
      (\<exists>c'. like_count (toggles db rs) pid = Some c' \<and> min c 0 \<le> c' \<and>
            (0 \<le> c \<longrightarrow> 0 \<le> c'))) \<and>
   (current_user db sess = Some uid \<and> like_count db pid = Some c \<and> liked db uid pid \<longrightarrow>
      like_count (db_after (toggle_like db sess pid)) pid = Some (max (c - 1) 0))"
proof (intro conjI impI)
  assume "like_count db pid = Some c"
  from toggles_floor[OF this, of rs] obtain c' where
    "like_count (toggles db rs) pid = Some c'" "min c 0 \<le> c'" by blast
  then show "\<exists>c'. like_count (toggles db rs) pid = Some c' \<and> min c 0 \<le> c' \<and>
      (0 \<le> c \<longrightarrow> 0 \<le> c')"
    by auto
next
  assume "current_user db sess = Some uid \<and> like_count db pid = Some c \<and> liked db uid pid"
  then show "like_count (db_after (toggle_like db sess pid)) pid = Some (max (c - 1) 0)"
    using toggle_like_clamp[of db sess uid pid c] by blast
qed

theorem like_count_never_negative_witness:
  "like_count desync_db 1 = Some 0 \<and>
   current_user desync_db (Some 1) = Some 1 \<and> liked desync_db 1 1 \<and>
   (\<exists>c'. like_count (toggles desync_db [(1, 1), (1, 1), (2, 1)]) 1 = Some c' \<and> 0 \<le> c') \<and>
   like_count (db_after (toggle_like desync_db (Some 1) 1)) 1 = Some 0"
proof -
  have h: "like_count desync_db 1 = Some 0" "current_user desync_db (Some 1) = Some 1"
    "liked desync_db 1 1"
    by (simp_all add: example_defs table_defs like_defs)
  from like_count_never_negative[of desync_db 1 0 "[(1, 1), (1, 1), (2, 1)]" "Some 1" 1] h
  show ?thesis by auto
qed

section \<open>Two like requests in a row\<close>

lemma toggle_like_users: "users (db_after (toggle_like db sess q)) = users db"
  by (auto simp: toggle_like_def unauthorized_def split: option.splits)

lemma toggle_like_insert:
  assumes "current_user db sess = Some uid" and "get_row (posts db) pid = Some p"
    and "\<not> liked db uid pid"
  shows "toggle_like db sess pid =
     \<lparr>db_after = db
        \<lparr>likes := insert_row \<lparr>like_user_id = uid, like_post_id = pid\<rparr> (likes db),
         posts := update_row pid (p\<lparr>likes_count := or_int (likes_count p) 0 + 1\<rparr>) (posts db)\<rparr>,
      session_after = sess,
      flashes = [(py ''Post liked!'', ''success'')],
      response = Redirect (PostDetail pid)\<rparr>"
proof -
  from assms(3) have n: "first_like db uid pid = None" by (simp only: not_liked_iff)
  from first_like_None_not_violated[OF n] assms(1,2) n show ?thesis
    by (simp add: toggle_like_def)
qed

lemma toggle_like_delete:
  assumes "current_user db sess = Some uid" and "get_row (posts db) pid = Some p"
    and "first_like db uid pid = Some kr"
  shows "toggle_like db sess pid =
     \<lparr>db_after = db
        \<lparr>likes := delete_row (fst kr) (likes db),
         posts := update_row pid
           (p\<lparr>likes_count := max (or_int (likes_count p) 1 - 1) 0\<rparr>) (posts db)\<rparr>,
      session_after = sess,
      flashes = [(py ''Like removed.'', ''info'')],
      response = Redirect (PostDetail pid)\<rparr>"
  using assms by (simp add: toggle_like_def)

lemma toggle_like_twice_unliked:
  assumes cu: "current_user db sess = Some uid"
    and p: "get_row (posts db) pid = Some p" and c: "0 \<le> likes_count p"
    and nl: "\<not> liked db uid pid" and kd: "keys_distinct (posts db)"
  shows "liked (db_after (toggle_like db sess pid)) uid pid"
    and "like_count (db_after (toggle_like db sess pid)) pid = Some (likes_count p + 1)"
    and "flashes (toggle_like db sess pid) = [(py ''Post liked!'', ''success'')]"
    and "flashes (toggle_like (db_after (toggle_like db sess pid)) sess pid) =
           [(py ''Like removed.'', ''info'')]"
    and "db_after (toggle_like (db_after (toggle_like db sess pid)) sess pid) = db"
proof -
  let ?l = "\<lparr>like_user_id = uid, like_post_id = pid\<rparr>"
  let ?p1 = "p\<lparr>likes_count := or_int (likes_count p) 0 + 1\<rparr>"
  let ?db1 = "db\<lparr>likes := insert_row ?l (likes db), posts := update_row pid ?p1 (posts db)\<rparr>"
  have t1: "toggle_like db sess pid =
     \<lparr>db_after = ?db1, session_after = sess,
      flashes = [(py ''Post liked!'', ''success'')], response = Redirect (PostDetail pid)\<rparr>"
    by (rule toggle_like_insert[OF cu p nl])
  have fl: "first_like ?db1 uid pid = Some (next_id (likes db), ?l)"
  proof -
    from nl have "first_like db uid pid = None" by (simp only: not_liked_iff)
    then show ?thesis
      by (simp add: first_like_def insert_row_def first_row_append_new)
  qed
  show "liked (db_after (toggle_like db sess pid)) uid pid"
    using fl by (simp add: t1 liked_def)
  have p1: "get_row (posts ?db1) pid = Some ?p1"
    using p by (simp add: get_row_update_row)
  show "like_count (db_after (toggle_like db sess pid)) pid = Some (likes_count p + 1)"
    using p1 by (simp add: t1 like_count_def or_int_def)
  show "flashes (toggle_like db sess pid) = [(py ''Post liked!'', ''success'')]"
    by (simp add: t1)
  have cu1: "current_user ?db1 sess = Some uid"
    using cu current_user_cong[of "?db1" db sess] by simp
  have rst: "max (or_int (likes_count ?p1) 1 - 1) 0 = likes_count p"
    using c by (simp add: or_int_def)
  have t2: "toggle_like ?db1 sess pid =
     \<lparr>db_after = ?db1
        \<lparr>likes := delete_row (fst (next_id (likes db), ?l)) (likes ?db1),
         posts := update_row pid
           (?p1\<lparr>likes_count := max (or_int (likes_count ?p1) 1 - 1) 0\<rparr>) (posts ?db1)\<rparr>,
      session_after = sess,
      flashes = [(py ''Like removed.'', ''info'')],
      response = Redirect (PostDetail pid)\<rparr>"
    by (rule toggle_like_delete[OF cu1 p1 fl])
  show "flashes (toggle_like (db_after (toggle_like db sess pid)) sess pid) =
           [(py ''Like removed.'', ''info'')]"
    by (simp only: t1 t2 outcome.simps)
  have "?p1\<lparr>likes_count := max (or_int (likes_count ?p1) 1 - 1) 0\<rparr> = p"
    by (simp only: rst) simp
  then show "db_after (toggle_like (db_after (toggle_like db sess pid)) sess pid) = db"
    by (simp only: t1 t2 outcome.simps)
       (simp add: delete_row_insert_row update_row_twice update_row_same[OF kd p])
qed

lemma first_row_delete_unique:
  assumes "distinct (map f t)" and "kr \<in> set t" and "\<And>x. P (snd x) \<longleftrightarrow> f x = f kr"
  shows "first_row P (delete_row (fst kr) t) = None"
proof -
  have "\<not> P (snd x)" if "x \<in> set (delete_row (fst kr) t)" for x
  proof
    assume "P (snd x)"
    then have "f x = f kr" by (simp add: assms(3))
    moreover from that have "x \<in> set t" "fst x \<noteq> fst kr" by (auto simp: delete_row_def)
    ultimately have "x = kr"
      using assms(1,2) by (meson distinct_map inj_onD)
    with \<open>fst x \<noteq> fst kr\<close> show False by simp
  qed
  then show ?thesis by (simp add: first_row_None)
qed

lemma toggle_like_twice_liked:
  assumes cu: "current_user db sess = Some uid"
    and p: "get_row (posts db) pid = Some p" and c: "1 \<le> likes_count p"
    and l: "liked db uid pid" and ux: "uix_user_post (likes db)"
  shows "\<not> liked (db_after (toggle_like db sess pid)) uid pid"
    and "like_count (db_after (toggle_like db sess pid)) pid = Some (likes_count p - 1)"
    and "liked (db_after (toggle_like (db_after (toggle_like db sess pid)) sess pid)) uid pid"
    and "like_count (db_after (toggle_like (db_after (toggle_like db sess pid)) sess pid)) pid =
           Some (likes_count p)"
    and "flashes (toggle_like (db_after (toggle_like db sess pid)) sess pid) =
           [(py ''Post liked!'', ''success'')]"
proof -
  from l obtain kr where e: "first_like db uid pid = Some kr"
    by (auto simp: liked_def)
  let ?p1 = "p\<lparr>likes_count := max (or_int (likes_count p) 1 - 1) 0\<rparr>"
  let ?db1 = "db\<lparr>likes := delete_row (fst kr) (likes db), posts := update_row pid ?p1 (posts db)\<rparr>"
  have t1: "toggle_like db sess pid =
     \<lparr>db_after = ?db1, session_after = sess,
      flashes = [(py ''Like removed.'', ''info'')], response = Redirect (PostDetail pid)\<rparr>"
    by (rule toggle_like_delete[OF cu p e])
  from e have m: "kr \<in> set (likes db)"
    and pr: "like_user_id (snd kr) = uid" "like_post_id (snd kr) = pid"
    by (auto simp: first_like_def dest: first_row_Some)
  have n1: "first_like ?db1 uid pid = None"
    unfolding first_like_def
    using first_row_delete_unique[of "\<lambda>kr. (like_user_id (snd kr), like_post_id (snd kr))"
        "likes db" kr "\<lambda>l. like_user_id l = uid \<and> like_post_id l = pid"] ux m pr
    by (simp add: uix_user_post_def)
  then have nl1: "\<not> liked ?db1 uid pid" by (simp only: not_liked_iff)
  show "\<not> liked (db_after (toggle_like db sess pid)) uid pid"
    using nl1 by (simp add: t1)
  have p1: "get_row (posts ?db1) pid = Some ?p1"
    using p by (simp add: get_row_update_row)
  have c1: "likes_count ?p1 = likes_count p - 1"
    using c by (simp add: or_int_def)
  show "like_count (db_after (toggle_like db sess pid)) pid = Some (likes_count p - 1)"
    using p1 c1 by (simp add: t1 like_count_def)
  have cu1: "current_user ?db1 sess = Some uid"
    using cu current_user_cong[of "?db1" db sess] by simp
  let ?p2 = "?p1\<lparr>likes_count := or_int (likes_count ?p1) 0 + 1\<rparr>"
  let ?db2 = "?db1\<lparr>likes := insert_row \<lparr>like_user_id = uid, like_post_id = pid\<rparr> (likes ?db1),
         posts := update_row pid ?p2 (posts ?db1)\<rparr>"
  have t2: "toggle_like ?db1 sess pid =
     \<lparr>db_after = ?db2, session_after = sess,
      flashes = [(py ''Post liked!'', ''success'')], response = Redirect (PostDetail pid)\<rparr>"
    by (rule toggle_like_insert[OF cu1 p1 nl1])
  show "flashes (toggle_like (db_after (toggle_like db sess pid)) sess pid) =
           [(py ''Post liked!'', ''success'')]"
    by (simp only: t1 t2 outcome.simps)
  have "first_like ?db2 uid pid =
          Some (next_id (likes ?db1), \<lparr>like_user_id = uid, like_post_id = pid\<rparr>)"
    using n1 by (simp add: first_like_def insert_row_def first_row_append_new)
  then show "liked (db_after (toggle_like (db_after (toggle_like db sess pid)) sess pid)) uid pid"
    by (simp only: t1 t2 outcome.simps) (simp add: liked_def)
  have "likes_count ?p2 = likes_count p"
    using c by (simp add: or_int_def)
  moreover have "get_row (posts ?db2) pid = Some ?p2"
    using p1 by (simp add: get_row_update_row)
  ultimately show "like_count (db_after (toggle_like (db_after (toggle_like db sess pid)) sess pid)) pid =
           Some (likes_count p)"
    by (simp only: t1 t2 outcome.simps) (simp add: like_count_def)
qed

lemma toggles_append: "toggles db (rs @ rs') = toggles (toggles db rs) rs'"
  by (induction rs arbitrary: db) simp_all

lemma toggles_even:
  assumes "db_after (toggle_like (db_after (toggle_like db (Some u) q)) (Some u) q) = db"
  shows "toggles db (replicate (2 * k) (u, q)) = db"
  using assms by (induction k) simp_all

lemma toggles_odd:
  assumes "db_after (toggle_like (db_after (toggle_like db (Some u) q)) (Some u) q) = db"
    and "odd n"
  shows "toggles db (replicate n (u, q)) = db_after (toggle_like db (Some u) q)"
proof -
  from \<open>odd n\<close> obtain k where "n = 2 * k + 1" by (auto elim: oddE)
  then have "replicate n (u, q) = replicate (2 * k) (u, q) @ [(u, q)]"
    by (simp add: replicate_append_same)
  then show ?thesis using toggles_even[OF assms(1), of k] by (simp add: toggles_append)
qed

text \<open>
  In \<open>liked_db\<close> member 1 already likes post 1. Two like requests in a row remove the
  like and add it again: after the second request the member has a like on the post, and
  the message of the second request is the one of the insert branch.
\<close>

theorem toggle_like_twice_counterexample:
  "liked (db_after (toggle_like (db_after (toggle_like liked_db (Some 1) 1)) (Some 1) 1)) 1 1 \<and>
   flashes (toggle_like (db_after (toggle_like liked_db (Some 1) 1)) (Some 1) 1) =
     [(py ''Post liked!'', ''success'')]"
  by (simp add: example_defs table_defs like_defs)

text \<open>
  C2, amended. Let the member be logged in, the post exist, and the tables be well formed.
  If the member has no like on the post and the counter is not negative, the first request
  adds the like and raises the counter by one, and the second request removes the like and
  gives back the database as it was, counter included. If the member has a like on the post
  and the counter is at least 1, the first request removes the like and the second adds it
  again: the counter is back at its value and the member has a like on the post. From a
  counter of 0 and no like by the member, an odd number of requests leaves the counter at 1
  and the like present.
\<close>

theorem toggle_like_twice:
  assumes "current_user db (Some uid) = Some uid" and "get_row (posts db) pid = Some p"
    and "keys_distinct (posts db)" and "uix_user_post (likes db)"
  shows "(\<not> liked db uid pid \<and> 0 \<le> likes_count p \<longrightarrow>
            liked (db_after (toggle_like db (Some uid) pid)) uid pid \<and>
            like_count (db_after (toggle_like db (Some uid) pid)) pid = Some (likes_count p + 1) \<and>
            \<not> liked (db_after (toggle_like (db_after (toggle_like db (Some uid) pid)) (Some uid) pid)) uid pid \<and>
            like_count (db_after (toggle_like (db_after (toggle_like db (Some uid) pid)) (Some uid) pid)) pid =
              Some (likes_count p) \<and>
            db_after (toggle_like (db_after (toggle_like db (Some uid) pid)) (Some uid) pid) = db) \<and>
         (liked db uid pid \<and> 1 \<le> likes_count p \<longrightarrow>
            \<not> liked (db_after (toggle_like db (Some uid) pid)) uid pid \<and>
            like_count (db_after (toggle_like db (Some uid) pid)) pid = Some (likes_count p - 1) \<and>
            liked (db_after (toggle_like (db_after (toggle_like db (Some uid) pid)) (Some uid) pid)) uid pid \<and>
            like_count (db_after (toggle_like (db_after (toggle_like db (Some uid) pid)) (Some uid) pid)) pid =
              Some (likes_count p)) \<and>
         (\<not> liked db uid pid \<and> likes_count p = 0 \<and> odd n \<longrightarrow>
            like_count (toggles db (replicate n (uid, pid))) pid = Some 1 \<and>
            liked (toggles db (replicate n (uid, pid))) uid pid)"
proof (intro conjI impI)
  assume a: "\<not> liked db uid pid \<and> 0 \<le> likes_count p"
  note u = toggle_like_twice_unliked[OF assms(1,2) conjunct2[OF a] conjunct1[OF a] assms(3)]
  show "liked (db_after (toggle_like db (Some uid) pid)) uid pid" by (rule u(1))
  show "like_count (db_after (toggle_like db (Some uid) pid)) pid = Some (likes_count p + 1)"
    by (rule u(2))
  show "db_after (toggle_like (db_after (toggle_like db (Some uid) pid)) (Some uid) pid) = db"
    by (rule u(5))
  show "\<not> liked (db_after (toggle_like (db_after (toggle_like db (Some uid) pid)) (Some uid) pid)) uid pid"
    using a by (simp add: u(5))
  show "like_count (db_after (toggle_like (db_after (toggle_like db (Some uid) pid)) (Some uid) pid)) pid =
              Some (likes_count p)"
    using assms(2) by (simp only: u(5)) (simp add: like_count_def)
next
  assume a: "liked db uid pid \<and> 1 \<le> likes_count p"
  note l = toggle_like_twice_liked[OF assms(1,2) conjunct2[OF a] conjunct1[OF a] assms(4)]
  show "\<not> liked (db_after (toggle_like db (Some uid) pid)) uid pid" by (rule l(1))
  show "like_count (db_after (toggle_like db (Some uid) pid)) pid = Some (likes_count p - 1)"
    by (rule l(2))
  show "liked (db_after (toggle_like (db_after (toggle_like db (Some uid) pid)) (Some uid) pid)) uid pid"
    by (rule l(3))
  show "like_count (db_after (toggle_like (db_after (toggle_like db (Some uid) pid)) (Some uid) pid)) pid =
              Some (likes_count p)"
    by (rule l(4))
next
  assume a: "\<not> liked db uid pid \<and> likes_count p = 0 \<and> odd n"
  then have nl: "\<not> liked db uid pid" and z: "0 \<le> likes_count p" and o: "odd n" by simp_all
  note u = toggle_like_twice_unliked[OF assms(1,2) z nl assms(3)]
  have t: "toggles db (replicate n (uid, pid)) = db_after (toggle_like db (Some uid) pid)"
    by (rule toggles_odd[OF u(5) o])
  show "like_count (toggles db (replicate n (uid, pid))) pid = Some 1"
    using u(2) a by (simp add: t)
  show "liked (toggles db (replicate n (uid, pid))) uid pid"
    using u(1) by (simp add: t)
qed

theorem toggle_like_twice_witness:
  "current_user small_db (Some 1) = Some 1 \<and> get_row (posts small_db) 1 = Some (fresh_post 1) \<and>
   keys_distinct (posts small_db) \<and> uix_user_post (likes small_db) \<and>
   \<not> liked small_db 1 1 \<and> likes_count (fresh_post 1) = 0 \<and> odd (3::nat) \<and>
   db_after (toggle_like (db_after (toggle_like small_db (Some 1) 1)) (Some 1) 1) = small_db \<and>
   like_count (toggles small_db (replicate 3 (1, 1))) 1 = Some 1 \<and>
   liked (toggles small_db (replicate 3 (1, 1))) 1 1 \<and>
   current_user liked_db (Some 1) = Some 1 \<and>
   get_row (posts liked_db) 1 = Some ((fresh_post 1)\<lparr>likes_count := 1\<rparr>) \<and>
   keys_distinct (posts liked_db) \<and> uix_user_post (likes liked_db) \<and>
   liked liked_db 1 1 \<and>
   like_count (db_after (toggle_like (db_after (toggle_like liked_db (Some 1) 1)) (Some 1) 1)) 1 =
     Some 1"
proof -
  have h: "current_user small_db (Some 1) = Some 1"
    "get_row (posts small_db) 1 = Some (fresh_post 1)"
    "keys_distinct (posts small_db)" "uix_user_post (likes small_db)"
    by (simp_all add: example_defs table_defs like_defs)
  have g: "\<not> liked small_db 1 1" "likes_count (fresh_post 1) = 0"
    by (simp_all add: example_defs table_defs like_defs)
  have h': "current_user liked_db (Some 1) = Some 1"
    "get_row (posts liked_db) 1 = Some ((fresh_post 1)\<lparr>likes_count := 1\<rparr>)"
    "keys_distinct (posts liked_db)" "uix_user_post (likes liked_db)"
    by (simp_all add: example_defs table_defs like_defs)
  have g': "liked liked_db 1 1"
    by (simp add: example_defs table_defs like_defs)
  from toggle_like_twice[OF h, of 3] toggle_like_twice[OF h', of 3] h g h' g'
  show ?thesis by simp
qed

section \<open>The title of a new post\<close>

lemma strip_Nil: "strip [] = []"
  by (simp add: strip_def lstrip_def rstrip_def)

lemma rstrip_Nil_iff: "rstrip s = [] \<longleftrightarrow> (\<forall>c \<in> set s. is_space c)"
  by (simp add: rstrip_def)

lemma rstrip_prefix: "\<exists>r. s = rstrip s @ r"
proof -
  have "s = rev (takeWhile is_space (rev s) @ dropWhile is_space (rev s))"
    by (simp only: takeWhile_dropWhile_id rev_rev_ident)
  also have "\<dots> = rstrip s @ rev (takeWhile is_space (rev s))"
    by (simp only: rev_append rstrip_def)
  finally show ?thesis ..
qed

lemma last_rstrip: "rstrip s \<noteq> [] \<Longrightarrow> \<not> is_space (last (rstrip s))"
  unfolding rstrip_def using hd_dropWhile[of is_space "rev s"] by (simp add: last_rev)

lemma hd_lstrip: "lstrip s \<noteq> [] \<Longrightarrow> \<not> is_space (hd (lstrip s))"
  unfolding lstrip_def by (rule hd_dropWhile)

lemma lstrip_id: "s = [] \<or> \<not> is_space (hd s) \<Longrightarrow> lstrip s = s"
  by (simp add: lstrip_def dropWhile_eq_self_iff)

lemma rstrip_id: "s = [] \<or> \<not> is_space (last s) \<Longrightarrow> rstrip s = s"
proof (cases "s = []")
  case True
  then show ?thesis by (simp add: rstrip_def)
next
  case False
  assume "s = [] \<or> \<not> is_space (last s)"
  with False have "\<not> is_space (hd (rev s))" by (simp add: hd_rev)
  then have "dropWhile is_space (rev s) = rev s" by (simp add: dropWhile_eq_self_iff)
  then show ?thesis by (simp add: rstrip_def)
qed

lemma hd_strip: "strip s \<noteq> [] \<Longrightarrow> \<not> is_space (hd (strip s))"
proof -
  assume n: "strip s \<noteq> []"
  obtain r where r: "lstrip s = strip s @ r"
    using rstrip_prefix[of "lstrip s"] by (auto simp: strip_def)
  with n have "hd (strip s) = hd (lstrip s)" by (metis hd_append2)
  moreover from r n have "lstrip s \<noteq> []" by auto
  ultimately show ?thesis using hd_lstrip by simp
qed

lemma strip_idem: "strip (strip s) = strip s"
proof (cases "strip s = []")
  case True
  with strip_Nil show ?thesis by simp
next
  case False
  have "lstrip (strip s) = strip s"
    using hd_strip[OF False] by (simp add: lstrip_id)
  moreover have "rstrip (strip s) = strip s"
    using False last_rstrip[of "lstrip s"] by (simp add: rstrip_id strip_def)
  ultimately show ?thesis by (simp add: strip_def[of "strip s"])
qed

lemma strip_take_nonempty:
  assumes "strip c = c" and "c \<noteq> []" and "0 < n"
  shows "strip (take n c) \<noteq> []"
proof -
  from assms(1,2) have h: "\<not> is_space (hd c)" using hd_strip[of c] by simp
  from assms(2,3) have t: "take n c \<noteq> []" "hd (take n c) = hd c" by (cases c; simp)+
  then have "lstrip (take n c) = take n c" using h by (simp add: lstrip_id)
  moreover have "hd (take n c) \<in> set (take n c)" using t(1) by (rule hd_in_set)
  ultimately show ?thesis using h t
    by (auto simp: strip_def rstrip_Nil_iff)
qed

lemma auto_title_blank:
  assumes "strip (or_opt title_data []) = []"
  shows "auto_title title_data content_data =
     or_str (if 80 < length (or_opt content_data [])
             then strip (take 80 (or_opt content_data [])) @ ellipsis
             else strip (take 80 (or_opt content_data []))) (py ''Untitled'')"
  using assms by (simp add: auto_title_def Let_def)

lemma or_opt_Nil [simp]: "or_opt x [] = (case x of None \<Rightarrow> [] | Some v \<Rightarrow> v)"
  by (simp add: or_opt_def or_str_def split: option.splits)

lemma auto_title_content:
  assumes "strip (or_opt title_data []) = []" and "strip c = c" and "c \<noteq> []"
  shows "auto_title title_data (Some c) =
           strip (take 80 c) @ (if 80 < length c then ellipsis else [])"
proof -
  have "strip (take 80 c) \<noteq> []"
    by (rule strip_take_nonempty[OF assms(2,3)]) simp
  with assms(2,3) show ?thesis
    by (auto simp: auto_title_blank[OF assms(1)] or_str_def)
qed

lemma auto_title_empty:
  assumes "strip (or_opt title_data []) = []" and "or_opt content_data [] = []"
  shows "auto_title title_data content_data = py ''Untitled''"
  using assms(2) by (simp add: auto_title_blank[OF assms(1)] or_str_def strip_Nil)

lemma strip_filter_data:
  "strip_filter raw = Some c \<Longrightarrow> strip c = c"
  by (auto simp: strip_filter_def strip_idem split: option.splits if_splits)

lemma Optional_blank_title:
  "Optional_blank raw \<Longrightarrow> strip (or_opt (strip_filter raw) []) = []"
  by (simp add: Optional_blank_def strip_filter_def strip_idem strip_Nil split: option.splits)

lemma PostForm_validate_content:
  "PostForm_validate form \<Longrightarrow>
   \<exists>c. strip_filter (pf_content form) = Some c \<and> c \<noteq> [] \<and> strip c = c"
  by (auto simp: PostForm_validate_def DataRequired_def strip_filter_data split: option.splits)

lemma new_post_stored:
  assumes "current_user db sess = Some uid" and "PostForm_validate form"
  shows "posts (db_after (new_post db sess form)) = posts db @
           [(next_id (posts db),
             \<lparr>title = auto_title (strip_filter (pf_title form)) (strip_filter (pf_content form)),
              post_content = Some (or_opt (strip_filter (pf_content form)) []),
              image_file = pf_image form, video_file = pf_video form,
              post_user_id = uid, likes_count = 0\<rparr>)]"
  using assms by (simp add: new_post_def insert_row_def del: or_opt_Nil)

text \<open>
  C4. Let the title of the form be empty or absent (or blank). When \<open>new_post\<close> accepts
  the form, the content \<open>c\<close> it stores is not empty, and the stored title is \<open>c\<close> itself
  when \<open>c\<close> has at most 80 code points, and the first 80 code points of \<open>c\<close>, trimmed,
  followed by the ellipsis when \<open>c\<close> is longer. When the content is empty the title
  expression yields \<open>Untitled\<close> (the form's validators reject such a request, so no post
  is stored for it).
\<close>

theorem new_post_auto_title:
  assumes "Optional_blank (pf_title form)"
  shows "(current_user db sess = Some uid \<and> PostForm_validate form \<longrightarrow>
           (\<exists>c. strip_filter (pf_content form) = Some c \<and> c \<noteq> [] \<and>
                posts (db_after (new_post db sess form)) = posts db @
                  [(next_id (posts db),
                    \<lparr>title = (if 80 < length c then strip (take 80 c) @ ellipsis else c),
                     post_content = Some c,
                     image_file = pf_image form, video_file = pf_video form,
                     post_user_id = uid, likes_count = 0\<rparr>)])) \<and>
         (or_opt (strip_filter (pf_content form)) [] = [] \<longrightarrow>
            auto_title (strip_filter (pf_title form)) (strip_filter (pf_content form)) =
              py ''Untitled'')"
proof (intro conjI impI)
  note b = Optional_blank_title[OF assms]
  {
    assume a: "current_user db sess = Some uid \<and> PostForm_validate form"
    from PostForm_validate_content[OF conjunct2[OF a]]
    obtain c where c: "strip_filter (pf_content form) = Some c" "c \<noteq> []" "strip c = c"
      by blast
    have "auto_title (strip_filter (pf_title form)) (Some c) =
            (if 80 < length c then strip (take 80 c) @ ellipsis else c)"
      using auto_title_content[OF b c(3,2)] c(3) by simp
    with new_post_stored[OF conjunct1[OF a] conjunct2[OF a]] c
    show "\<exists>c. strip_filter (pf_content form) = Some c \<and> c \<noteq> [] \<and>
                posts (db_after (new_post db sess form)) = posts db @
                  [(next_id (posts db),
                    \<lparr>title = (if 80 < length c then strip (take 80 c) @ ellipsis else c),
                     post_content = Some c,
                     image_file = pf_image form, video_file = pf_video form,
                     post_user_id = uid, likes_count = 0\<rparr>)]"
      by simp
  }
  {
    assume "or_opt (strip_filter (pf_content form)) [] = []"
    then show "auto_title (strip_filter (pf_title form)) (strip_filter (pf_content form)) =
              py ''Untitled''"
      by (rule auto_title_empty[OF b])
  }
qed

lemmas form_defs = post_form_def PostForm_validate_def Optional_blank_def strip_filter_def
  DataRequired_def data_len_def data_str_def strip_def lstrip_def rstrip_def is_space_def

text \<open>The two cases of the claim, run: a content of 100 and one of 50 code points.\<close>

lemma new_post_examples:
  "length text100 = 100"
  "map (\<lambda>kr. title (snd kr))
     (posts (db_after (new_post small_db (Some 1) (post_form None (Some text100))))) =
     [py ''Hello'', take 80 text100 @ ellipsis]"
  "length text50 = 50"
  "map (\<lambda>kr. title (snd kr))
     (posts (db_after (new_post small_db (Some 1) (post_form (Some []) (Some text50))))) =
     [py ''Hello'', text50]"
  by (simp_all add: new_post_def auto_title_def form_defs text100_def text50_def example_defs
      table_defs like_defs py_def or_str_def Let_def)

theorem new_post_auto_title_witness:
  "Optional_blank (pf_title (post_form None (Some text100))) \<and>
   current_user small_db (Some 1) = Some 1 \<and>
   PostForm_validate (post_form None (Some text100)) \<and>
   (\<exists>c. strip_filter (pf_content (post_form None (Some text100))) = Some c \<and> c \<noteq> [] \<and>
        posts (db_after (new_post small_db (Some 1) (post_form None (Some text100)))) =
          posts small_db @
          [(next_id (posts small_db),
            \<lparr>title = (if 80 < length c then strip (take 80 c) @ ellipsis else c),
             post_content = Some c, image_file = None, video_file = None,
             post_user_id = 1, likes_count = 0\<rparr>)]) \<and>
   Optional_blank (pf_title (post_form None None)) \<and>
   or_opt (strip_filter (pf_content (post_form None None))) [] = [] \<and>
   auto_title (strip_filter (pf_title (post_form None None)))
     (strip_filter (pf_content (post_form None None))) = py ''Untitled''"
proof -
  have h: "Optional_blank (pf_title (post_form None (Some text100)))"
    "Optional_blank (pf_title (post_form None None))"
    by (simp_all add: post_form_def Optional_blank_def)
  have g: "current_user small_db (Some 1) = Some 1"
    by (simp add: example_defs table_defs like_defs)
  have v: "PostForm_validate (post_form None (Some text100))"
    by (simp add: form_defs text100_def py_def)
  have e: "or_opt (strip_filter (pf_content (post_form None None))) [] = []"
    by (simp add: post_form_def strip_filter_def)
  from new_post_auto_title[OF h(1), of small_db "Some 1" 1]
       new_post_auto_title[OF h(2), of small_db "Some 1" 1] h g v e
  show ?thesis by (simp add: post_form_def del: or_opt_Nil)
qed

text \<open>
  The content reaches the title expression trimmed by \<open>strip_filter\<close>. On a content that
  is not trimmed the expression can fall back to \<open>Untitled\<close> although the content is not
  empty.
\<close>

lemma auto_title_blank_content:
  "auto_title None (Some (py ''   '')) = py ''Untitled''"
  by (simp add: auto_title_def or_str_def py_def strip_def lstrip_def rstrip_def is_space_def)

section \<open>Only the author edits or deletes\<close>

text \<open>
  C9. For a logged-in member who is not the author, \<open>edit_post\<close> and \<open>delete_post\<close> on
  an existing post, and \<open>edit_comment\<close> and \<open>delete_comment\<close> on an existing comment,
  answer 403 and return the database and the session as they were.
\<close>

theorem not_author_rejected:
  assumes "current_user db sess = Some uid"
  shows "(get_row (posts db) pid = Some p \<and> post_user_id p \<noteq> uid \<longrightarrow>
            edit_post db sess pid pform =
              \<lparr>db_after = db, session_after = sess, flashes = [], response = Abort 403\<rparr> \<and>
            delete_post db sess pid =
              \<lparr>db_after = db, session_after = sess, flashes = [], response = Abort 403\<rparr>) \<and>
         (get_row (comments db) cid = Some c \<and> comment_user_id c \<noteq> uid \<longrightarrow>
            edit_comment db sess cid cform =
              \<lparr>db_after = db, session_after = sess, flashes = [], response = Abort 403\<rparr> \<and>
            delete_comment db sess cid =
              \<lparr>db_after = db, session_after = sess, flashes = [], response = Abort 403\<rparr>)"
  using assms
  by (simp add: edit_post_def delete_post_def edit_comment_def delete_comment_def)

text \<open>The author's own requests do change the entity.\<close>

lemma author_delete_post:
  assumes "current_user db sess = Some uid" and "get_row (posts db) pid = Some p"
    and "post_user_id p = uid"
  shows "get_row (posts (db_after (delete_post db sess pid))) pid = None"
  using assms by (simp add: delete_post_def delete_row_def get_row_def map_of_eq_None_iff image_iff)

theorem not_author_rejected_witness:
  "current_user comment_db (Some 2) = Some 2 \<and>
   get_row (posts comment_db) 1 = Some (fresh_post 1) \<and> post_user_id (fresh_post 1) \<noteq> 2 \<and>
   get_row (comments comment_db) 1 =
     Some \<lparr>comment_content = py ''Nice'', comment_user_id = 1, comment_post_id = 1\<rparr> \<and>
   edit_post comment_db (Some 2) 1 (post_form (Some (py ''Mine'')) (Some (py ''Taken over''))) =
     \<lparr>db_after = comment_db, session_after = Some 2, flashes = [], response = Abort 403\<rparr> \<and>
   delete_post comment_db (Some 2) 1 =
     \<lparr>db_after = comment_db, session_after = Some 2, flashes = [], response = Abort 403\<rparr> \<and>
   edit_comment comment_db (Some 2) 1 (comment_form (Some (py ''Edited''))) =
     \<lparr>db_after = comment_db, session_after = Some 2, flashes = [], response = Abort 403\<rparr> \<and>
   delete_comment comment_db (Some 2) 1 =
     \<lparr>db_after = comment_db, session_after = Some 2, flashes = [], response = Abort 403\<rparr>"
proof -
  have h: "current_user comment_db (Some 2) = Some 2"
    by (simp add: example_defs table_defs like_defs)
  have g: "get_row (posts comment_db) 1 = Some (fresh_post 1)" "post_user_id (fresh_post 1) \<noteq> 2"
    "get_row (comments comment_db) 1 =
       Some \<lparr>comment_content = py ''Nice'', comment_user_id = 1, comment_post_id = 1\<rparr>"
    by (simp_all add: example_defs table_defs)
  from not_author_rejected[OF h, of 1 "fresh_post 1"
      "post_form (Some (py ''Mine'')) (Some (py ''Taken over''))" 1
      "\<lparr>comment_content = py ''Nice'', comment_user_id = 1, comment_post_id = 1\<rparr>"
      "comment_form (Some (py ''Edited''))"] h g
  show ?thesis by simp
qed

lemma author_requests_run:
  "response (delete_post comment_db (Some 1) 1) = Redirect (Endpoint ''home'')"
  "posts (db_after (delete_post comment_db (Some 1) 1)) = []"
  "comments (db_after (delete_post comment_db (Some 1) 1)) = []"
  "map (\<lambda>kr. comment_content (snd kr))
     (comments (db_after (edit_comment comment_db (Some 1) 1 (comment_form (Some (py ''Edited'')))))) =
     [py ''Edited'']"
  by (simp_all add: delete_post_def edit_comment_def comment_form_def
      CommentForm_validate_obj_def field_data_def form_defs example_defs table_defs like_defs
      py_def)

section \<open>Failed logins look the same\<close>

text \<open>
  C10. For an anonymous visitor and two valid login forms, one with an e-mail address that
  no member has and one with the address of a member whose stored hash does not match the
  password: both requests have the same outcome, which is the message
  \<open>Incorrect email or password.\<close> on the login page, with the database and the session
  as they were.
\<close>

theorem login_invalid_credentials:
  assumes "current_user db sess = None"
    and "LoginForm_validate form1" and "LoginForm_validate form2"
    and "first_row (\<lambda>u. Some (email u) = strip_filter (lf_email form1)) (users db) = None"
    and "first_row (\<lambda>u. Some (email u) = strip_filter (lf_email form2)) (users db) = Some found"
    and "password_hash (snd found) = Some h"
    and "\<not> check_password_hash h (data_str (lf_password form2))"
  shows "login check_password_hash db sess form1 = login check_password_hash db sess form2 \<and>
         login check_password_hash db sess form1 =
           \<lparr>db_after = db, session_after = sess,
            flashes = [(py ''Incorrect email or password.'', ''danger'')],
            response = Render ''login.html''\<rparr>"
  using assms by (simp add: login_def check_password_def incorrect_login_def)

lemmas login_defs = login_def check_password_def incorrect_login_def LoginForm_validate_def
  login_form_def check_secret_def

theorem login_invalid_credentials_witness:
  "current_user small_db None = None \<and>
   LoginForm_validate (login_form (py ''eve@x.org'') (py ''secret1'')) \<and>
   LoginForm_validate (login_form (py ''ann@x.org'') (py ''guess'')) \<and>
   first_row (\<lambda>u. Some (email u) = strip_filter (lf_email (login_form (py ''eve@x.org'') (py ''secret1''))))
     (users small_db) = None \<and>
   first_row (\<lambda>u. Some (email u) = strip_filter (lf_email (login_form (py ''ann@x.org'') (py ''guess''))))
     (users small_db) = Some (1, member (py ''ann'') (py ''ann@x.org'')) \<and>
   password_hash (member (py ''ann'') (py ''ann@x.org'')) = Some (py ''pbkdf2$salt$digest'') \<and>
   login check_secret small_db None (login_form (py ''eve@x.org'') (py ''secret1'')) =
     login check_secret small_db None (login_form (py ''ann@x.org'') (py ''guess'')) \<and>
   login check_secret small_db None (login_form (py ''eve@x.org'') (py ''secret1'')) =
     \<lparr>db_after = small_db, session_after = None,
      flashes = [(py ''Incorrect email or password.'', ''danger'')],
      response = Render ''login.html''\<rparr>"
proof -
  have a: "current_user small_db None = None" by (simp add: current_user_def)
  have v: "LoginForm_validate (login_form (py ''eve@x.org'') (py ''secret1''))"
    "LoginForm_validate (login_form (py ''ann@x.org'') (py ''guess''))"
    by (simp_all add: login_defs form_defs py_def)
  have f1: "first_row (\<lambda>u. Some (email u) =
       strip_filter (lf_email (login_form (py ''eve@x.org'') (py ''secret1'')))) (users small_db) = None"
    by (simp add: login_defs form_defs example_defs table_defs py_def)
  have f2: "first_row (\<lambda>u. Some (email u) =
       strip_filter (lf_email (login_form (py ''ann@x.org'') (py ''guess'')))) (users small_db) =
       Some (1, member (py ''ann'') (py ''ann@x.org''))"
    by (simp add: login_defs form_defs example_defs table_defs py_def)
  have p: "password_hash (snd (1::nat, member (py ''ann'') (py ''ann@x.org''))) =
       Some (py ''pbkdf2$salt$digest'')"
    and p': "password_hash (member (py ''ann'') (py ''ann@x.org'')) = Some (py ''pbkdf2$salt$digest'')"
    by (simp_all add: member_def)
  have w: "\<not> check_secret (py ''pbkdf2$salt$digest'')
       (data_str (lf_password (login_form (py ''ann@x.org'') (py ''guess''))))"
    by (simp add: login_defs data_str_def py_def)
  note r = login_invalid_credentials[where check_password_hash = check_secret, OF a v f1 f2 p w]
  from a v f1 f2 p' conjunct1[OF r] conjunct2[OF r]
  show ?thesis by (intro conjI) assumption+
qed

lemma login_success_run:
  "session_after (login check_secret small_db None (login_form (py ''ann@x.org'') (py ''secret1''))) = Some 1"
  "response (login check_secret small_db None (login_form (py ''ann@x.org'') (py ''secret1''))) =
     Redirect (Endpoint ''home'')"
  by (simp_all add: login_defs form_defs example_defs table_defs current_user_def py_def or_str_def)

section \<open>Registration rejects a taken username or e-mail address\<close>

lemma register_taken:
  assumes "current_user db sess = None" and "RegistrationForm_validate form"
    and "kr \<in> set (users db)"
    and "Some (username (snd kr)) = strip_filter (rf_username form) \<or>
         Some (email (snd kr)) = strip_filter (rf_email form)"
  shows "register generate_password_hash db sess form =
           \<lparr>db_after = db, session_after = sess,
            flashes = [(py ''Username or email already registered.'', ''warning'')],
            response = Render ''register.html''\<rparr>"
proof -
  have "first_row (\<lambda>u. Some (username u) = strip_filter (rf_username form) \<or>
                       Some (email u) = strip_filter (rf_email form)) (users db) \<noteq> None"
    using assms(3,4) by (auto simp: first_row_None)
  then show ?thesis using assms(1,2) by (auto simp: register_def)
qed

lemma DataRequired_Some: "DataRequired d \<Longrightarrow> d = Some (data_str d)"
  by (auto simp: DataRequired_def data_str_def split: option.splits)

lemma register_success:
  assumes "current_user db sess = None" and "RegistrationForm_validate form"
    and "first_row (\<lambda>u. Some (username u) = strip_filter (rf_username form) \<or>
                       Some (email u) = strip_filter (rf_email form)) (users db) = None"
  shows "register generate_password_hash db sess form =
           \<lparr>db_after = db\<lparr>users := users db @
                [(next_id (users db), new_user generate_password_hash form)]\<rparr>,
            session_after = sess,
            flashes = [(py ''Welcome to CS Community! Your account is ready.'', ''success'')],
            response = Redirect (Endpoint ''login'')\<rparr>"
proof -
  from assms(2) have n: "strip_filter (rf_username form) = Some (data_str (strip_filter (rf_username form)))"
    and m: "strip_filter (rf_email form) = Some (data_str (strip_filter (rf_email form)))"
    using DataRequired_Some by (simp_all add: RegistrationForm_validate_def)
  from assms(3) have f: "\<forall>kr \<in> set (users db).
      Some (username (snd kr)) \<noteq> strip_filter (rf_username form) \<and>
      Some (email (snd kr)) \<noteq> strip_filter (rf_email form)"
    by (simp add: first_row_None)
  have "username (new_user generate_password_hash form) \<notin> set (map (\<lambda>kr. username (snd kr)) (users db))"
    using f n by (auto simp: new_user_def)
  moreover have "email (new_user generate_password_hash form) \<notin> set (map (\<lambda>kr. email (snd kr)) (users db))"
    using f m by (auto simp: new_user_def)
  moreover have "password_hash (new_user generate_password_hash form) \<noteq> None"
    by (simp add: new_user_def)
  ultimately have "add_user (new_user generate_password_hash form) db =
      Inr (db\<lparr>users := users db @ [(next_id (users db), new_user generate_password_hash form)]\<rparr>)"
    by (simp add: add_user_def insert_row_def)
  then show ?thesis
    using assms by (simp add: register_def)
qed

text \<open>
  C8. Let the registration form be valid. If some member has the username or the e-mail
  address of the form, an anonymous request gets the single message
  \<open>Username or email already registered.\<close>, whichever field collided, and the database
  is as it was. And after a registration that succeeded, a second valid form with the same
  username or the same e-mail address is rejected in that way.
\<close>

theorem register_duplicate_identity:
  assumes "RegistrationForm_validate form"
  shows "(current_user db sess = None \<and> kr \<in> set (users db) \<and>
            (Some (username (snd kr)) = strip_filter (rf_username form) \<or>
             Some (email (snd kr)) = strip_filter (rf_email form)) \<longrightarrow>
            register generate_password_hash db sess form =
              \<lparr>db_after = db, session_after = sess,
               flashes = [(py ''Username or email already registered.'', ''warning'')],
               response = Render ''register.html''\<rparr>) \<and>
         (RegistrationForm_validate form2 \<and>
          response (register generate_password_hash db None form) = Redirect (Endpoint ''login'') \<and>
          (strip_filter (rf_username form2) = strip_filter (rf_username form) \<or>
           strip_filter (rf_email form2) = strip_filter (rf_email form)) \<longrightarrow>
            register generate_password_hash
              (db_after (register generate_password_hash db None form)) None form2 =
              \<lparr>db_after = db_after (register generate_password_hash db None form),
               session_after = None,
               flashes = [(py ''Username or email already registered.'', ''warning'')],
               response = Render ''register.html''\<rparr>)"
proof (intro conjI impI)
  assume "current_user db sess = None \<and> kr \<in> set (users db) \<and>
            (Some (username (snd kr)) = strip_filter (rf_username form) \<or>
             Some (email (snd kr)) = strip_filter (rf_email form))"
  then show "register generate_password_hash db sess form =
              \<lparr>db_after = db, session_after = sess,
               flashes = [(py ''Username or email already registered.'', ''warning'')],
               response = Render ''register.html''\<rparr>"
    using register_taken[OF _ assms, of db sess kr] by blast
next
  let ?r = "register generate_password_hash db None form"
  assume a: "RegistrationForm_validate form2 \<and>
          response ?r = Redirect (Endpoint ''login'') \<and>
          (strip_filter (rf_username form2) = strip_filter (rf_username form) \<or>
           strip_filter (rf_email form2) = strip_filter (rf_email form))"
  have cu: "current_user db None = None" "current_user (db_after ?r) None = None"
    by (simp_all add: current_user_def)
  have fn: "first_row (\<lambda>u. Some (username u) = strip_filter (rf_username form) \<or>
                       Some (email u) = strip_filter (rf_email form)) (users db) = None"
  proof (rule ccontr)
    assume "\<not> ?thesis"
    then have "response ?r = Render ''register.html''"
      using assms cu(1) by (auto simp: register_def)
    with a show False by simp
  qed
  define u where "u = new_user generate_password_hash form"
  have u: "username u = data_str (strip_filter (rf_username form))"
    "email u = data_str (strip_filter (rf_email form))"
    "?r = \<lparr>db_after = db\<lparr>users := users db @ [(next_id (users db), u)]\<rparr>,
           session_after = None,
           flashes = [(py ''Welcome to CS Community! Your account is ready.'', ''success'')],
           response = Redirect (Endpoint ''login'')\<rparr>"
    using register_success[OF cu(1) assms fn, of generate_password_hash]
    by (simp_all add: u_def new_user_def)
  from assms have n: "strip_filter (rf_username form) = Some (data_str (strip_filter (rf_username form)))"
    and m: "strip_filter (rf_email form) = Some (data_str (strip_filter (rf_email form)))"
    using DataRequired_Some by (simp_all add: RegistrationForm_validate_def)
  have mem: "(next_id (users db), u) \<in> set (users (db_after ?r))"
    by (simp add: u(3))
  have col: "Some (username (snd (next_id (users db), u))) = strip_filter (rf_username form2) \<or>
             Some (email (snd (next_id (users db), u))) = strip_filter (rf_email form2)"
    using a u(1,2) n m by auto
  show "register generate_password_hash (db_after ?r) None form2 =
              \<lparr>db_after = db_after ?r, session_after = None,
               flashes = [(py ''Username or email already registered.'', ''warning'')],
               response = Render ''register.html''\<rparr>"
    by (rule register_taken[OF cu(2) conjunct1[OF a] mem col])
qed

lemmas register_defs = register_def new_user_def add_user_def RegistrationForm_validate_def
  registration_form_def hash_stub_def track_choices_def

theorem register_duplicate_identity_witness:
  "RegistrationForm_validate (registration_form (py ''carl'') (py ''ann@x.org'')) \<and>
   current_user small_db None = None \<and>
   (1, member (py ''ann'') (py ''ann@x.org'')) \<in> set (users small_db) \<and>
   Some (email (member (py ''ann'') (py ''ann@x.org''))) =
     strip_filter (rf_email (registration_form (py ''carl'') (py ''ann@x.org''))) \<and>
   register hash_stub small_db None (registration_form (py ''carl'') (py ''ann@x.org'')) =
     \<lparr>db_after = small_db, session_after = None,
      flashes = [(py ''Username or email already registered.'', ''warning'')],
      response = Render ''register.html''\<rparr> \<and>
   RegistrationForm_validate (registration_form (py ''cara'') (py ''cara@x.org'')) \<and>
   RegistrationForm_validate (registration_form (py ''dora'') (py ''cara@x.org'')) \<and>
   RegistrationForm_validate (registration_form (py ''cara'') (py ''dora@x.org'')) \<and>
   response (register hash_stub small_db None (registration_form (py ''cara'') (py ''cara@x.org''))) =
     Redirect (Endpoint ''login'') \<and>
   register hash_stub
     (db_after (register hash_stub small_db None (registration_form (py ''cara'') (py ''cara@x.org''))))
     None (registration_form (py ''dora'') (py ''cara@x.org'')) =
     \<lparr>db_after = db_after (register hash_stub small_db None
                   (registration_form (py ''cara'') (py ''cara@x.org''))),
      session_after = None,
      flashes = [(py ''Username or email already registered.'', ''warning'')],
      response = Render ''register.html''\<rparr> \<and>
   register hash_stub
     (db_after (register hash_stub small_db None (registration_form (py ''cara'') (py ''cara@x.org''))))
     None (registration_form (py ''cara'') (py ''dora@x.org'')) =
     \<lparr>db_after = db_after (register hash_stub small_db None
                   (registration_form (py ''cara'') (py ''cara@x.org''))),
      session_after = None,
      flashes = [(py ''Username or email already registered.'', ''warning'')],
      response = Render ''register.html''\<rparr>"
proof -
  let ?a = "registration_form (py ''carl'') (py ''ann@x.org'')"
  let ?c = "registration_form (py ''cara'') (py ''cara@x.org'')"
  let ?d = "registration_form (py ''dora'') (py ''cara@x.org'')"
  let ?e = "registration_form (py ''cara'') (py ''dora@x.org'')"
  have v: "RegistrationForm_validate ?a" "RegistrationForm_validate ?c"
    "RegistrationForm_validate ?d" "RegistrationForm_validate ?e"
    by (simp_all add: register_defs form_defs py_def)
  have cu: "current_user small_db None = None" by (simp add: current_user_def)
  have m: "(1, member (py ''ann'') (py ''ann@x.org'')) \<in> set (users small_db)"
    by (simp add: example_defs)
  have col: "Some (email (member (py ''ann'') (py ''ann@x.org''))) = strip_filter (rf_email ?a)"
    by (simp add: register_defs form_defs example_defs py_def)
  have ok: "response (register hash_stub small_db None ?c) = Redirect (Endpoint ''login'')"
    by (simp add: register_defs form_defs example_defs table_defs current_user_def py_def)
  have same: "strip_filter (rf_email ?d) = strip_filter (rf_email ?c)"
    "strip_filter (rf_username ?e) = strip_filter (rf_username ?c)"
    by (simp_all add: registration_form_def)
  have r1: "register hash_stub small_db None ?a =
     \<lparr>db_after = small_db, session_after = None,
      flashes = [(py ''Username or email already registered.'', ''warning'')],
      response = Render ''register.html''\<rparr>"
    using conjunct1[OF register_duplicate_identity[OF v(1), of small_db None
        "(1, member (py ''ann'') (py ''ann@x.org''))" hash_stub]] cu m col
    by simp
  have r2: "register hash_stub (db_after (register hash_stub small_db None ?c)) None ?d =
     \<lparr>db_after = db_after (register hash_stub small_db None ?c), session_after = None,
      flashes = [(py ''Username or email already registered.'', ''warning'')],
      response = Render ''register.html''\<rparr>"
    using conjunct2[OF register_duplicate_identity[OF v(2), of small_db None _ hash_stub ?d]]
      v(3) ok same(1) by blast
  have r3: "register hash_stub (db_after (register hash_stub small_db None ?c)) None ?e =
     \<lparr>db_after = db_after (register hash_stub small_db None ?c), session_after = None,
      flashes = [(py ''Username or email already registered.'', ''warning'')],
      response = Render ''register.html''\<rparr>"
    using conjunct2[OF register_duplicate_identity[OF v(2), of small_db None _ hash_stub ?e]]
      v(4) ok same(2) by blast
  from v cu m col ok r1 r2 r3 show ?thesis by (intro conjI) assumption+
qed

lemma register_run:
  "map (\<lambda>kr. (fst kr, username (snd kr), email (snd kr)))
     (users (db_after (register hash_stub small_db None
        (registration_form (py ''cara'') (py ''cara@x.org''))))) =
   [(1, py ''ann'', py ''ann@x.org''), (2, py ''bob'', py ''bob@x.org''),
    (3, py ''cara'', py ''cara@x.org'')]"
  by (simp add: register_defs form_defs example_defs table_defs current_user_def py_def)

section \<open>Edits by the author\<close>

text \<open>
  The author's edit with a field left out of the request keeps the stored value; a title
  field that is the empty string makes the commit raise.
\<close>

lemma author_edit_run:
  "edit_post comment_db (Some 1) 1 (post_form None (Some (py ''New body''))) =
     \<lparr>db_after = comment_db
        \<lparr>posts := [(1, (fresh_post 1)\<lparr>post_content := Some (py ''New body'')\<rparr>)]\<rparr>,
      session_after = Some 1, flashes = [(py ''Post updated.'', ''success'')],
      response = Redirect (PostDetail 1)\<rparr>"
  "response (edit_post comment_db (Some 1) 1 (post_form (Some []) (Some (py ''New body'')))) =
     Raised IntegrityError"
  "edit_comment comment_db (Some 1) 1 (comment_form None) =
     \<lparr>db_after = comment_db, session_after = Some 1,
      flashes = [(py ''Comment updated.'', ''success'')], response = Redirect (PostDetail 1)\<rparr>"
  by (simp_all add: edit_post_def edit_comment_def comment_form_def PostForm_validate_obj_def
      CommentForm_validate_obj_def field_data_def form_defs example_defs table_defs like_defs
      py_def)

section \<open>Google sign-in\<close>

lemma google_callback_raises:
  assumes "or_opt (ui_sub ui) [] \<noteq> []" and "or_opt (ui_email ui) [] \<noteq> []"
  shows "google_callback db sess (UserInfo ui) =
           \<lparr>db_after = db, session_after = sess, flashes = [],
            response = Raised InvalidRequestError\<rparr>"
  using assms by (simp add: google_callback_def del: or_opt_Nil)

text \<open>No request to the callback changes the database or logs anybody in.\<close>

lemma google_callback_no_effect:
  "db_after (google_callback db sess reply) = db \<and>
   session_after (google_callback db sess reply) = sess"
  by (cases reply) (simp_all add: google_callback_def del: or_opt_Nil)

text \<open>
  C5. The claim gives the order in which a sign-in resolves the identity: by subject id, else
  by e-mail address with a link, else by creating a member; and a second sign-in with the
  same subject id returns the same member. The callback does none of this. On the small
  database, a sign-in whose e-mail address is the one of member 1 and a sign-in of an unknown
  account both end in \<open>InvalidRequestError\<close>, with the database as it was and nobody logged
  in, and the second sign-in of the unknown account ends the same way.
\<close>

theorem google_callback_raises_on_sign_in:
  "google_callback small_db None
     (UserInfo (google_user (py ''g-1'') (py ''ann@x.org'') (py ''Ann''))) =
     \<lparr>db_after = small_db, session_after = None, flashes = [],
      response = Raised InvalidRequestError\<rparr> \<and>
   google_callback small_db None
     (UserInfo (google_user (py ''g-123'') (py ''cara@x.org'') (py ''Cara Lee''))) =
     \<lparr>db_after = small_db, session_after = None, flashes = [],
      response = Raised InvalidRequestError\<rparr> \<and>
   google_callback
     (db_after (google_callback small_db None
        (UserInfo (google_user (py ''g-123'') (py ''cara@x.org'') (py ''Cara Lee'')))))
     None (UserInfo (google_user (py ''g-123'') (py ''cara@x.org'') (py ''Cara Lee''))) =
     \<lparr>db_after = small_db, session_after = None, flashes = [],
      response = Raised InvalidRequestError\<rparr>"
  by (simp add: google_callback_def google_user_def py_def)

text \<open>A member that is stored has a password hash.\<close>

lemma add_user_needs_hash: "add_user u db = Inr db' \<Longrightarrow> password_hash u \<noteq> None"
  by (auto simp: add_user_def split: if_splits)


section \<open>The username for a Google account\<close>








end
